theory Spec2Isabelle
  imports Main "HOL-Library.Sublist"
begin

section \<open>The Launchpad indicator (FocusIndicator) and the home webview\<close>

text \<open>
  A shallow embedding of the class \<^verbatim>\<open>FocusIndicator\<close> (the status-bar indicator with its
  refresh timer) and of the connection cache of \<^verbatim>\<open>HomeWebviewProvider\<close>.

  Conventions of the model:
  \<^item> the private fields of the class are the fields of a record, an \<^verbatim>\<open>undefined\<close> field is
    \<open>None\<close>;
  \<^item> every method is a function from the state before the call to the state after it;
  \<^item> the host (configuration store, clock, timer queue, telemetry, storage, the provider's
    connection state) is part of the same record, so that a handler can read it;
  \<^item> a \<^verbatim>\<open>Date\<close> is its number of milliseconds, JavaScript numbers are integers here
    (timestamps are whole milliseconds, the polling interval is taken in whole minutes);
  \<^item> an \<^verbatim>\<open>async\<close> handler runs to completion as one step.
\<close>

subsection \<open>Data model\<close>

datatype FocusIndicatorState = Idle | Disconnected | Loading | Load

text \<open>
  A pending timer of the host. \<open>Timeout d i\<close> is the \<^verbatim>\<open>setTimeout\<close> of
  \<^verbatim>\<open>startRefreshTimer\<close>: it fires once after \<open>d\<close> milliseconds, and its callback then
  arms a \<^verbatim>\<open>setInterval\<close> of \<open>i\<close> milliseconds (the closure keeps the interval that was
  read when the timeout was armed). \<open>Interval i\<close> is a repeating timer.
\<close>

datatype timer = Timeout int int | Interval int

text \<open>The value of the status bar item's \<^verbatim>\<open>command\<close>.\<close>

datatype sb_command = CommandId string | OpenLaunchpad bool

record StatusBarItem =
  sb_name :: string
  sb_text :: string
  sb_tooltip :: "string option"
  sb_color :: "string option"
  sb_command :: "sb_command option"
  sb_shown :: bool

text \<open>
  The keys of \<^verbatim>\<open>launchpad.indicator.*\<close> that the indicator reads with
  \<^verbatim>\<open>configuration.get\<close>. An unset \<^verbatim>\<open>groups\<close>, \<^verbatim>\<open>label\<close> or \<^verbatim>\<open>icon\<close> is \<open>None\<close>
  (the code falls back with \<^verbatim>\<open>??\<close>).
\<close>

record Configuration =
  indicator_enabled :: bool
  indicator_openInEditor :: bool
  polling_enabled :: bool
  polling_interval :: int
  indicator_useColors :: bool
  indicator_groups :: "string list option"
  indicator_label :: "string option"
  indicator_icon :: "string option"

text \<open>
  A \<^verbatim>\<open>FocusItem\<close>, with the fields the indicator reads: the actionable category, the
  repository (owner login and name) when there is one, and the id.
\<close>

record FocusItem =
  actionableCategory :: string
  repository :: "(string \<times> string) option"
  item_id :: string

text \<open>
  Helpers that the indicator imports from other modules of the repository, taken as
  parameters: the constant \<^verbatim>\<open>previewBadge\<close>, \<^verbatim>\<open>pluralize(s, count, options)\<close> (the third
  argument is the separator option, when given), \<^verbatim>\<open>groupAndSortFocusItems\<close>,
  \<^verbatim>\<open>groupByMap\<close> and the list \<^verbatim>\<open>supportedFocusIntegrations\<close>. A JavaScript \<^verbatim>\<open>Map\<close> is the list of its entries in insertion order.
\<close>

record Externals =
  previewBadge :: string
  pluralize :: "string \<Rightarrow> nat \<Rightarrow> string option \<Rightarrow> string"
  groupAndSortFocusItems :: "FocusItem list option \<Rightarrow> (string \<times> FocusItem list) list"
  groupByMap :: "FocusItem list \<Rightarrow> (FocusItem \<Rightarrow> string) \<Rightarrow> (string \<times> FocusItem list) list"
  supportedFocusIntegrations :: "string list"

text \<open>
  The host, as far as the indicator reads or changes it: the configuration store, the
  provider's answer to \<^verbatim>\<open>hasConnectedIntegration()\<close>, the clock, the pending timers with
  the next unused timer handle, the number of forced refreshes requested from the provider
  (\<^verbatim>\<open>getCategorizedItems({ force: true })\<close>), telemetry and storage.
\<close>

record Host =
  ext :: Externals
  config :: Configuration
  hasConnectedIntegration :: bool
  clock :: int
  timers :: "(nat \<times> timer) list"
  nextTimer :: nat
  forcedRefreshes :: nat
  telemetry_enabled :: bool
  storage_hasLoaded :: "bool option"
  telemetry_events :: "string list"

text \<open>The fields of the class, on top of the host.\<close>

record FocusIndicator = Host +
  statusBarFocus :: "StatusBarItem option"
  refreshTimer :: "nat option"
  state :: FocusIndicatorState
  lastDataUpdate :: "int option"
  lastRefreshPaused :: "int option"

subsection \<open>Timers of the host\<close>

text \<open>\<^verbatim>\<open>clearInterval(h)\<close>: the timer with handle \<open>h\<close>, if it is pending, is cancelled.\<close>

definition clearInterval :: "nat \<Rightarrow> FocusIndicator \<Rightarrow> FocusIndicator" where
  "clearInterval h s = s\<lparr>timers := filter (\<lambda>(i, t). i \<noteq> h) (timers s)\<rparr>"

text \<open>
  \<^verbatim>\<open>setTimeout\<close> and \<^verbatim>\<open>setInterval\<close>: a new timer is pending under a fresh handle, which
  is returned with the new state.
\<close>

definition armTimer :: "timer \<Rightarrow> FocusIndicator \<Rightarrow> nat \<times> FocusIndicator" where
  "armTimer t s =
     (nextTimer s, s\<lparr>timers := timers s @ [(nextTimer s, t)], nextTimer := Suc (nextTimer s)\<rparr>)"

subsection \<open>The refresh scheduler\<close>

definition refreshInterval :: "FocusIndicator \<Rightarrow> int" where
  "refreshInterval s = polling_interval (config s) * 1000 * 60"

definition startRefreshTimer :: "int option \<Rightarrow> FocusIndicator \<Rightarrow> FocusIndicator" where
  "startRefreshTimer firstDelay s =
     (let s1 = (case refreshTimer s of Some h \<Rightarrow> clearInterval h s | None \<Rightarrow> s) in
      if \<not> polling_enabled (config s1) \<or> state s1 = Disconnected then s1
      else if refreshInterval s1 \<le> 0 then s1
      else (case firstDelay of
              Some d \<Rightarrow>
                (let (h, s2) = armTimer (Timeout d (refreshInterval s1)) s1
                 in s2\<lparr>refreshTimer := Some h\<rparr>)
            | None \<Rightarrow>
                (let (h, s2) = armTimer (Interval (refreshInterval s1)) s1
                 in s2\<lparr>refreshTimer := Some h\<rparr>)))"

definition clearRefreshTimer :: "FocusIndicator \<Rightarrow> FocusIndicator" where
  "clearRefreshTimer s =
     (case refreshTimer s of
        Some h \<Rightarrow> (clearInterval h s)\<lparr>refreshTimer := None\<rparr>
      | None \<Rightarrow> s)"

text \<open>
  A pending timer fires. The callback of a \<open>Timeout\<close> requests a forced refresh and arms
  the repeating timer, whose handle it stores; the timeout itself is spent. The callback of
  an \<open>Interval\<close> requests a forced refresh and the timer stays pending.
\<close>

definition getCategorizedItems_force :: "FocusIndicator \<Rightarrow> FocusIndicator" where
  "getCategorizedItems_force s = s\<lparr>forcedRefreshes := Suc (forcedRefreshes s)\<rparr>"

definition fireTimer :: "nat \<Rightarrow> FocusIndicator \<Rightarrow> FocusIndicator" where
  "fireTimer h s =
     (case map_of (timers s) h of
        None \<Rightarrow> s
      | Some (Timeout d i) \<Rightarrow>
          (let s1 = getCategorizedItems_force (clearInterval h s);
               (h', s2) = armTimer (Interval i) s1
           in s2\<lparr>refreshTimer := Some h'\<rparr>)
      | Some (Interval i) \<Rightarrow> getCategorizedItems_force s)"

text \<open>
  The live timers are accounted for: the only timer that can be pending is the one whose
  handle the indicator holds, and no pending handle is the next fresh one or beyond.
\<close>

definition timers_ok :: "FocusIndicator \<Rightarrow> bool" where
  "timers_ok s \<longleftrightarrow>
     (\<forall>(i, t) \<in> set (timers s). refreshTimer s = Some i \<and> i < nextTimer s) \<and>
     distinct (map fst (timers s))"

subsection \<open>Strings\<close>

text \<open>
  A string is the list of its bytes in UTF-8. \<open>nbsp\<close> is the no-break space (U+00A0),
  \<open>show_nat\<close> is the decimal notation of a count (a number in a template literal),
  \<open>appendMarkdown\<close> is the method of \<^verbatim>\<open>MarkdownString\<close>, whose value is the model of the
  tooltip.
\<close>

definition nbsp :: string where
  "nbsp = [CHR 0xC2, CHR 0xA0]"

fun show_nat :: "nat \<Rightarrow> string" where
  "show_nat n =
     (if n < 10 then [''0123456789'' ! n] else show_nat (n div 10) @ [''0123456789'' ! (n mod 10)])"

definition appendMarkdown :: "string \<Rightarrow> string \<Rightarrow> string" where
  "appendMarkdown tooltip v = tooltip @ v"

text \<open>
  \<^verbatim>\<open>encodeURIComponent\<close>: every byte outside the unreserved characters is written as a
  percent sign and two upper-case hexadecimal digits.
\<close>

definition uri_unreserved :: "char \<Rightarrow> bool" where
  \<open>uri_unreserved c \<longleftrightarrow>
     c \<in> set (''ABCDEFGHIJKLMNOPQRSTUVWXYZabcdefghijklmnopqrstuvwxyz0123456789''
              @ ''-_.!~*()'' @ [CHR 0x27])\<close>

definition encodeURIComponent :: "string \<Rightarrow> string" where
  "encodeURIComponent str =
     concat (map (\<lambda>c. if uri_unreserved c then [c]
                       else [CHR ''%'', ''0123456789ABCDEF'' ! ((of_char c :: nat) div 16),
                             ''0123456789ABCDEF'' ! ((of_char c :: nat) mod 16)]) str)"

text \<open>
  \<^verbatim>\<open>JSON.stringify({ source: 'indicator', state: { initialGroup: g, selectTopItem: b } })\<close>,
  for a group name without characters that JSON escapes.
\<close>

definition stringifyIndicatorArgs :: "string \<Rightarrow> bool \<Rightarrow> string" where
  \<open>stringifyIndicatorArgs g b =
     ''{"source":"indicator","state":{"initialGroup":"'' @ g @ ''","selectTopItem":''
       @ (if b then ''true'' else ''false'') @ ''}}''\<close>

subsection \<open>Rendering the items\<close>

text \<open>\<^verbatim>\<open>x ??= v\<close>, as the new value of \<open>x\<close>.\<close>

definition nullish_assign :: "'a option \<Rightarrow> 'a \<Rightarrow> 'a option" where
  "nullish_assign x v = (case x of None \<Rightarrow> Some v | Some y \<Rightarrow> Some y)"

text \<open>
  \<^verbatim>\<open>m.get(k)\<close> under the test \<^verbatim>\<open>items?.length\<close>: the entry when it is there and not
  empty.
\<close>

definition getItems :: "(string \<times> FocusItem list) list \<Rightarrow> string \<Rightarrow> FocusItem list option" where
  "getItems m k = (case map_of m k of None \<Rightarrow> None | Some xs \<Rightarrow> if xs = [] then None else Some xs)"

definition getTopItemLabel :: "Externals \<Rightarrow> FocusItem \<Rightarrow> nat option \<Rightarrow> string" where
  "getTopItemLabel e item groupLength =
     (case repository item of Some (login, name) \<Rightarrow> login @ ''/'' @ name | None \<Rightarrow> [])
     @ ''#'' @ item_id item
     @ (case groupLength of
          None \<Rightarrow> []
        | Some n \<Rightarrow>
            if n > 1 then '' and '' @ pluralize e ''pull request'' (n - 1) (Some '' other '')
            else [])"

text \<open>The variables that the loop over the configured groups assigns.\<close>

record render_acc =
  r_tooltip :: string
  r_color :: "string option"
  r_topItem :: "(FocusItem \<times> string) option"
  r_topIcon :: "string option"

definition launchpadCommand :: "string \<Rightarrow> bool \<Rightarrow> string \<Rightarrow> string" where
  \<open>launchpadCommand g selectTop title =
     ''](command:gitlens.showLaunchpad?'' @ encodeURIComponent (stringifyIndicatorArgs g selectTop)
       @ '' "'' @ title @ ''")''\<close>

definition renderMergeable :: "Externals \<Rightarrow> string \<Rightarrow> FocusItem list \<Rightarrow> render_acc \<Rightarrow> render_acc" where
  \<open>renderMergeable e labelType items a =
     (let topIcon = nullish_assign (r_topIcon a) ''rocket'';
          topItem = nullish_assign (r_topItem a) (hd items, ''can be merged'');
          tooltip = appendMarkdown (r_tooltip a)
            (''<span style="color:#3d90fc;">$(rocket)</span> [''
             @ (case topItem of
                  Some (item, l) \<Rightarrow>
                    if labelType = ''item'' then getTopItemLabel e item (Some (length items))
                    else pluralize e ''pull request'' (length items) None
                | None \<Rightarrow> pluralize e ''pull request'' (length items) None)
             @ '' can be merged''
             @ launchpadCommand ''mergeable'' (labelType = ''item'') ''Open Ready to Merge in Launchpad'')
      in a\<lparr>r_tooltip := tooltip, r_color := Some ''#00FF00'', r_topItem := topItem,
            r_topIcon := topIcon\<rparr>)\<close>

definition blockedKey :: "FocusItem \<Rightarrow> string" where
  "blockedKey i =
     (if actionableCategory i = ''failed-checks'' \<or> actionableCategory i = ''conflicts''
         \<or> actionableCategory i = ''unassigned-reviewers''
      then actionableCategory i else ''blocked'')"

text \<open>
  The three tests of the \<^verbatim>\<open>blocked\<close> case on the map \<open>action\<close>, in the order of the code:
  the first item found, the last action message and the summary in parentheses.
\<close>

definition blockedMessages ::
  "(string \<times> FocusItem list) list \<Rightarrow> FocusItem option \<times> string \<times> string" where
  "blockedMessages action =
     (let hasMultipleCategories = length action > 1;
          item0 = None; actionMessage0 = []; summaryMessage0 = ''('';
          (item1, actionMessage1, summaryMessage1) =
            (case getItems action ''unassigned-reviewers'' of
               None \<Rightarrow> (item0, actionMessage0, summaryMessage0)
             | Some xs \<Rightarrow>
                 (let m = (if length xs > 1 then ''need'' else ''needs'') @ '' reviewers''
                  in (nullish_assign item0 (hd xs), m,
                      summaryMessage0 @ show_nat (length xs) @ '' '' @ m)));
          (item2, actionMessage2, summaryMessage2) =
            (case getItems action ''failed-checks'' of
               None \<Rightarrow> (item1, actionMessage1, summaryMessage1)
             | Some xs \<Rightarrow>
                 (let m = ''failed CI checks''
                  in (nullish_assign item1 (hd xs), m,
                      summaryMessage1 @ (if hasMultipleCategories then '', '' else [])
                        @ show_nat (length xs) @ '' '' @ m)));
          (item3, actionMessage3, summaryMessage3) =
            (case getItems action ''conflicts'' of
               None \<Rightarrow> (item2, actionMessage2, summaryMessage2)
             | Some xs \<Rightarrow>
                 (let m = (if length xs > 1 then ''have'' else ''has'') @ '' conflicts''
                  in (nullish_assign item2 (hd xs), m,
                      summaryMessage2 @ (if hasMultipleCategories then '', '' else [])
                        @ show_nat (length xs) @ '' '' @ m)))
      in (item3, actionMessage3, summaryMessage3 @ '')''))"

definition blockedLabel :: "FocusItem \<Rightarrow> string" where
  "blockedLabel item =
     (if actionableCategory item = ''unassigned-reviewers'' then ''needs reviewers''
      else if actionableCategory item = ''failed-checks'' then ''failed CI checks''
      else if actionableCategory item = ''conflicts'' then ''has conflicts''
      else ''is blocked'')"

definition renderBlocked :: "Externals \<Rightarrow> string \<Rightarrow> FocusItem list \<Rightarrow> render_acc \<Rightarrow> render_acc" where
  \<open>renderBlocked e labelType items a =
     (let action = groupByMap e items blockedKey;
          hasMultipleCategories = length action > 1;
          (item, actionMessage, summaryMessage) = blockedMessages action;
          topIcon = nullish_assign (r_topIcon a) ''error'';
          tooltip1 = appendMarkdown (r_tooltip a)
            (''<span style="color:#FF0000;">$(error)</span> [''
             @ (case item of
                  Some i \<Rightarrow>
                    if labelType = ''item'' \<and> r_topItem a = None
                    then getTopItemLabel e i (Some (length items))
                    else pluralize e ''pull request'' (length items) None
                | None \<Rightarrow> pluralize e ''pull request'' (length items) None)
             @ '' '' @ (if hasMultipleCategories then ''are blocked'' else actionMessage)
             @ launchpadCommand ''blocked'' (labelType = ''item'') ''Open Blocked in Launchpad'');
          tooltip2 = (if hasMultipleCategories
                      then appendMarkdown tooltip1
                             ([CHR 0x5C] @ ''\<newline>$(blank) '' @ summaryMessage)
                      else tooltip1);
          color = nullish_assign (r_color a) ''#FF0000'';
          topItem = (case item of
                       None \<Rightarrow> r_topItem a
                     | Some i \<Rightarrow> nullish_assign (r_topItem a) (i, blockedLabel i))
      in a\<lparr>r_tooltip := tooltip2, r_color := color, r_topItem := topItem, r_topIcon := topIcon\<rparr>)\<close>

definition renderFollowUp :: "Externals \<Rightarrow> string \<Rightarrow> FocusItem list \<Rightarrow> render_acc \<Rightarrow> render_acc" where
  \<open>renderFollowUp e labelType items a =
     (let topIcon = nullish_assign (r_topIcon a) ''report'';
          tooltip = appendMarkdown (r_tooltip a)
            (''<span style="color:#3d90fc;">$(report)</span> [''
             @ (if labelType = ''item'' \<and> r_topItem a = None \<and> length items \<noteq> 0
                then getTopItemLabel e (hd items) (Some (length items))
                else pluralize e ''pull request'' (length items) None)
             @ '' '' @ (if length items > 1 then ''require'' else ''requires'') @ '' follow-up''
             @ launchpadCommand ''follow-up'' (labelType = ''item'') ''Open Follow-Up in Launchpad'');
          color = nullish_assign (r_color a) ''#FFA500'';
          topItem = nullish_assign (r_topItem a) (hd items, ''requires follow-up'')
      in a\<lparr>r_tooltip := tooltip, r_color := color, r_topItem := topItem, r_topIcon := topIcon\<rparr>)\<close>

definition renderNeedsReview :: "Externals \<Rightarrow> string \<Rightarrow> FocusItem list \<Rightarrow> render_acc \<Rightarrow> render_acc" where
  \<open>renderNeedsReview e labelType items a =
     (let topIcon = nullish_assign (r_topIcon a) ''comment-draft'';
          tooltip = appendMarkdown (r_tooltip a)
            (''<span style="color:#3d90fc;">$(comment-draft)</span> [''
             @ (if labelType = ''item'' \<and> r_topItem a = None \<and> length items \<noteq> 0
                then getTopItemLabel e (hd items) (Some (length items))
                else pluralize e ''pull request'' (length items) None)
             @ '' '' @ (if length items > 1 then ''need'' else ''needs'') @ '' your review''
             @ launchpadCommand ''needs-review'' (labelType = ''item'')
                 ''Open Needs Your Review in Launchpad'');
          color = nullish_assign (r_color a) ''#FFFF00'';
          topItem = nullish_assign (r_topItem a) (hd items, ''needs your review'')
      in a\<lparr>r_tooltip := tooltip, r_color := color, r_topItem := topItem, r_topIcon := topIcon\<rparr>)\<close>

text \<open>
  One round of the loop \<^verbatim>\<open>for (const group of groups)\<close>: a group without items is
  skipped; otherwise the separator is appended to a tooltip that is not empty, and the
  \<^verbatim>\<open>switch\<close> on the group follows (a group that the \<^verbatim>\<open>switch\<close> does not name appends
  nothing more).
\<close>

definition renderGroup ::
  "Externals \<Rightarrow> string \<Rightarrow> (string \<times> FocusItem list) list \<Rightarrow> render_acc \<Rightarrow> string \<Rightarrow> render_acc" where
  "renderGroup e labelType groupedItems a g =
     (case getItems groupedItems g of
        None \<Rightarrow> a
      | Some items \<Rightarrow>
          (let a1 = (if length (r_tooltip a) > 0
                     then a\<lparr>r_tooltip := appendMarkdown (r_tooltip a)
                            ''\<newline>\<newline>---\<newline>\<newline>''\<rparr>
                     else a)
           in if g = ''mergeable'' then renderMergeable e labelType items a1
              else if g = ''blocked'' then renderBlocked e labelType items a1
              else if g = ''follow-up'' then renderFollowUp e labelType items a1
              else if g = ''needs-review'' then renderNeedsReview e labelType items a1
              else a1))"

text \<open>
  The render payload of \<^verbatim>\<open>updateStatusBarWithItems\<close>: the text, the tooltip and the color
  that it assigns to the status bar item, computed from the helpers, the configuration, the
  tooltip it is given and the items.
\<close>

definition itemsPayload ::
  "Externals \<Rightarrow> Configuration \<Rightarrow> string \<Rightarrow> FocusItem list option \<Rightarrow> string \<times> string \<times> string option" where
  \<open>itemsPayload e c tooltip categorizedItems =
     (let useColors = indicator_useColors c;
          groups = (case indicator_groups c of Some gs \<Rightarrow> gs | None \<Rightarrow> []);
          labelType = (case indicator_label c of Some l \<Rightarrow> l | None \<Rightarrow> ''item'');
          iconType = (case indicator_icon c of Some i \<Rightarrow> i | None \<Rightarrow> ''default'');
          a0 = \<lparr>r_tooltip = tooltip, r_color = None, r_topItem = None, r_topIcon = None\<rparr>;
          groupedItems = groupAndSortFocusItems e categorizedItems;
          totalGroupedItems = sum_list (map (\<lambda>(g, items). length items) groupedItems);
          hasImportantGroupsWithItems = list_ex (\<lambda>g. getItems groupedItems g \<noteq> None) groups;
          a = (if totalGroupedItems = 0
               then a0\<lparr>r_tooltip := appendMarkdown tooltip ''You are all caught up!''\<rparr>
               else if \<not> hasImportantGroupsWithItems
               then a0\<lparr>r_tooltip := appendMarkdown tooltip
                       (''No pull requests need your attention'' @ [CHR 0x5C] @ ''\<newline>(''
                        @ show_nat totalGroupedItems @ '' other pull requests)'')\<rparr>
               else foldl (renderGroup e labelType groupedItems) a0 groups);
          iconSegment = (case r_topIcon a of
                           Some i \<Rightarrow> if iconType = ''group'' then ''$('' @ i @ '')'' else ''$(rocket)''
                         | None \<Rightarrow> ''$(rocket)'');
          labelSegment = (case r_topItem a of
                            Some (item, groupLabel) \<Rightarrow>
                              if labelType = ''item''
                              then '' '' @ getTopItemLabel e item None @ '' '' @ groupLabel
                              else []
                          | None \<Rightarrow> [])
      in (iconSegment @ labelSegment, r_tooltip a, if useColors then r_color a else None))\<close>

definition sendTelemetryFirstLoadEvent :: "FocusIndicator \<Rightarrow> FocusIndicator" where
  "sendTelemetryFirstLoadEvent s =
     (if \<not> telemetry_enabled s then s
      else (let hasLoaded = (case storage_hasLoaded s of Some b \<Rightarrow> b | None \<Rightarrow> False)
            in if \<not> hasLoaded
               then s\<lparr>storage_hasLoaded := Some True,
                      telemetry_events := telemetry_events s @ [''launchpad/indicator/firstLoad'']\<rparr>
               else s))"

text \<open>The three assignments to the text, the tooltip and the color of the status bar item.\<close>

definition setStatusBar :: "string \<Rightarrow> string \<Rightarrow> string option \<Rightarrow> FocusIndicator \<Rightarrow> FocusIndicator" where
  "setStatusBar text tooltip color s =
     s\<lparr>statusBarFocus :=
         map_option (\<lambda>sb. sb\<lparr>sb_text := text, sb_tooltip := Some tooltip, sb_color := color\<rparr>)
           (statusBarFocus s)\<rparr>"

definition updateStatusBarWithItems ::
  "string \<Rightarrow> FocusItem list option \<Rightarrow> FocusIndicator \<Rightarrow> FocusIndicator" where
  "updateStatusBarWithItems tooltip categorizedItems s =
     (case statusBarFocus s of
        None \<Rightarrow> s
      | Some _ \<Rightarrow>
          (let s1 = sendTelemetryFirstLoadEvent s;
               s2 = s1\<lparr>lastDataUpdate := Some (clock s1)\<rparr>;
               (text, tooltip', color) = itemsPayload (ext s2) (config s2) tooltip categorizedItems
           in setStatusBar text tooltip' color s2))"

subsection \<open>The indicator state machine\<close>

text \<open>The tooltip that \<^verbatim>\<open>updateStatusBar\<close> builds before it looks at the state.\<close>

definition tooltipHeader :: "Externals \<Rightarrow> string" where
  \<open>tooltipHeader e =
     (let t0 = [];
          t1 = appendMarkdown t0
                 (''GitLens Launchpad '' @ previewBadge e @ nbsp @ nbsp @ nbsp @ nbsp @ ''&mdash;''
                  @ nbsp @ nbsp @ nbsp @ nbsp);
          t2 = appendMarkdown t1
                 ''[$(gear)](command:workbench.action.openSettings?%22gitlens.launchpad%22 "Settings")'';
          t3 = appendMarkdown t2 (nbsp @ nbsp @ nbsp @ ''|'' @ nbsp @ nbsp @ nbsp);
          t4 = appendMarkdown t3
                 ''[$(circle-slash) Hide](command:gitlens.launchpad.indicator.action?"hide" "Hide")''
      in appendMarkdown t4 ''\<newline>\<newline>---\<newline>\<newline>'')\<close>

definition tooltipIntro :: "string \<Rightarrow> string" where
  \<open>tooltipIntro t =
     (let t1 = appendMarkdown t
                 (''[Launchpad](command:gitlens.getStarted?"gitlens.welcome.launchpad" ''
                  @ ''"Learn about Launchpad") organizes your pull requests into actionable groups ''
                  @ ''to help you focus and keep your team unblocked.'')
      in appendMarkdown t1
           (''\<newline>\<newline>It'' @ [CHR 0x27] @ ''s always accessible using the `GitLens: Open Launchpad` ''
            @ ''command from the Command Palette.''))\<close>

text \<open>The markdown that the cases \<^verbatim>\<open>'disconnected'\<close> and \<^verbatim>\<open>'loading'\<close> append.\<close>

definition connectMarkdown :: string where
  \<open>connectMarkdown =
     ''\<newline>\<newline>[Connect to GitHub](command:gitlens.launchpad.indicator.action?''
     @ ''"connectGitHub" "Connect to GitHub") to get started.''\<close>

definition loadingMarkdown :: string where
  "loadingMarkdown = ''\<newline>\<newline>---\<newline>\<newline>$(loading~spin) Loading...''"

definition updateStatusBar ::
  "FocusIndicatorState \<Rightarrow> FocusItem list option \<Rightarrow> FocusIndicator \<Rightarrow> FocusIndicator" where
  \<open>updateStatusBar st categorizedItems s =
     (case statusBarFocus s of
        None \<Rightarrow> s
      | Some _ \<Rightarrow>
          if st = state s \<and> st \<noteq> Load then s
          else
            (let s1 = s\<lparr>state := st\<rparr>;
                 tooltip0 = tooltipHeader (ext s1);
                 tooltip = (if st = Idle \<or> st = Disconnected \<or> st = Loading
                            then tooltipIntro tooltip0 else tooltip0)
             in case st of
                  Idle \<Rightarrow> setStatusBar ''$(rocket)'' tooltip None (clearRefreshTimer s1)
                | Disconnected \<Rightarrow>
                    (let s2 = clearRefreshTimer s1;
                         tooltip' = appendMarkdown tooltip connectMarkdown
                     in setStatusBar ''$(rocket)$(gitlens-unplug) Launchpad'' tooltip' None s2)
                | Loading \<Rightarrow>
                    (let s2 = startRefreshTimer (Some 5000) s1;
                         tooltip' = appendMarkdown tooltip loadingMarkdown
                     in setStatusBar ''$(loading~spin)'' tooltip' None s2)
                | Load \<Rightarrow> updateStatusBarWithItems tooltip categorizedItems s1))\<close>

definition updateStatusBarCommand :: "FocusIndicator \<Rightarrow> FocusIndicator" where
  "updateStatusBarCommand s =
     (case statusBarFocus s of
        None \<Rightarrow> s
      | Some sb \<Rightarrow>
          (let labelType = (case indicator_label (config s) of Some l \<Rightarrow> l | None \<Rightarrow> ''item'')
           in s\<lparr>statusBarFocus :=
                  Some (sb\<lparr>sb_command :=
                             Some (if indicator_openInEditor (config s)
                                   then CommandId ''gitlens.showFocusPage''
                                   else OpenLaunchpad (labelType = ''item''))\<rparr>)\<rparr>))"

definition maybeLoadData :: "FocusIndicator \<Rightarrow> FocusIndicator" where
  "maybeLoadData s =
     (if polling_enabled (config s) \<and> polling_interval (config s) > 0
      then (if hasConnectedIntegration s then updateStatusBar Loading None s
            else updateStatusBar Disconnected None s)
      else updateStatusBar Idle None s)"

definition onFocusRefreshed :: "FocusItem list option \<Rightarrow> FocusIndicator \<Rightarrow> FocusIndicator" where
  "onFocusRefreshed items s =
     (if statusBarFocus s = None \<or> \<not> polling_enabled (config s) then s
      else updateStatusBar Load items s)"

definition onConnectedIntegrationsChanged :: "string \<Rightarrow> FocusIndicator \<Rightarrow> FocusIndicator" where
  "onConnectedIntegrationsChanged key s =
     (if key \<in> set (supportedFocusIntegrations (ext s)) then maybeLoadData s else s)"

text \<open>
  A configuration change event is the list of the keys that changed;
  \<^verbatim>\<open>configuration.changed(e, section)\<close> holds when a changed key is the section, lies in
  it, or contains it. The configuration store already holds the new values when the
  handler runs.
\<close>

definition changed :: "string list \<Rightarrow> string \<Rightarrow> bool" where
  "changed e section \<longleftrightarrow>
     list_ex (\<lambda>k. k = section \<or> prefix (section @ ''.'') k \<or> prefix (k @ ''.'') section) e"

definition onConfigurationChanged :: "string list \<Rightarrow> FocusIndicator \<Rightarrow> FocusIndicator" where
  "onConfigurationChanged e s =
     (if \<not> changed e ''launchpad.indicator'' then s
      else
        (let s1 = (if changed e ''launchpad.indicator.openInEditor''
                   then updateStatusBarCommand s else s);
             (reloaded, s2) =
               (if changed e ''launchpad.indicator.polling''
                then (if changed e ''launchpad.indicator.polling.enabled''
                      then (True, maybeLoadData s1)
                      else if changed e ''launchpad.indicator.polling.interval''
                      then (False, startRefreshTimer None s1)
                      else (False, s1))
                else (False, s1))
         in if (\<not> reloaded \<and> changed e ''launchpad.indicator.useColors'')
               \<or> changed e ''launchpad.indicator.icon''
               \<or> changed e ''launchpad.indicator.label''
               \<or> changed e ''launchpad.indicator.groups''
            then (let s3 = maybeLoadData s2
                  in if changed e ''launchpad.indicator.label''
                     then updateStatusBarCommand s3 else s3)
            else s2))"

definition onWindowStateChanged :: "bool \<Rightarrow> FocusIndicator \<Rightarrow> FocusIndicator" where
  "onWindowStateChanged focused s =
     (if state s = Disconnected \<or> state s = Idle then s
      else if \<not> focused then (clearRefreshTimer s)\<lparr>lastRefreshPaused := Some (clock s)\<rparr>
      else
        (case lastRefreshPaused s of
           None \<Rightarrow> s
         | Some paused \<Rightarrow>
             if state s = Loading then startRefreshTimer (Some 5000) s
             else
               (let now = clock s;
                    timeSinceLastUpdate = map_option (\<lambda>u. now - u) (lastDataUpdate s);
                    timeSinceLastUnfocused = now - paused;
                    s1 = s\<lparr>lastRefreshPaused := None\<rparr>;
                    interval = refreshInterval s1;
                    timeToNextPoll0 = (case timeSinceLastUpdate of
                                         Some t \<Rightarrow> interval - t
                                       | None \<Rightarrow> interval);
                    timeToNextPoll = (if timeToNextPoll0 < 0 then 0 else timeToNextPoll0);
                    diff = timeToNextPoll - timeSinceLastUnfocused
                in startRefreshTimer (Some (if diff < 0 then 0 else diff)) s1)))"

definition onReady :: "FocusIndicator \<Rightarrow> FocusIndicator" where
  "onReady s =
     (if \<not> indicator_enabled (config s) then s
      else
        (let s1 = s\<lparr>statusBarFocus :=
                       Some \<lparr>sb_name = ''GitLens Launchpad'', sb_text = [], sb_tooltip = None,
                             sb_color = None, sb_command = None, sb_shown = False\<rparr>\<rparr>;
             s2 = maybeLoadData s1;
             s3 = updateStatusBarCommand s2
         in s3\<lparr>statusBarFocus := map_option (\<lambda>sb. sb\<lparr>sb_shown := True\<rparr>) (statusBarFocus s3)\<rparr>))"

text \<open>The constructor on a host: the state is \<^verbatim>\<open>'idle'\<close>, then \<^verbatim>\<open>onReady\<close> runs.\<close>

definition construct :: "Host \<Rightarrow> FocusIndicator" where
  "construct h =
     onReady (Host.extend h
       (FocusIndicator.fields None None Idle None None))"

definition dispose :: "FocusIndicator \<Rightarrow> FocusIndicator" where
  "dispose s = (clearRefreshTimer s)\<lparr>statusBarFocus := None\<rparr>"

subsection \<open>Events\<close>

text \<open>
  What the host delivers to the indicator: a window focus change, a completed refresh of
  the provider with its items, a configuration change (the changed keys and the new
  configuration), a connection state change of an integration (its key, and whether the
  provider has a connected integration afterwards), and a pending timer that fires. Every
  event comes with the time at which its handler runs.
\<close>

datatype event =
  WindowStateChanged bool
| FocusRefreshed "FocusItem list option"
| ConfigurationChanged "string list" Configuration
| ConnectionStateChanged string bool
| TimerFired nat

fun handle :: "event \<Rightarrow> FocusIndicator \<Rightarrow> FocusIndicator" where
  "handle (WindowStateChanged focused) s = onWindowStateChanged focused s"
| "handle (FocusRefreshed items) s = onFocusRefreshed items s"
| "handle (ConfigurationChanged e c) s = onConfigurationChanged e (s\<lparr>config := c\<rparr>)"
| "handle (ConnectionStateChanged key connected) s =
     onConnectedIntegrationsChanged key (s\<lparr>hasConnectedIntegration := connected\<rparr>)"
| "handle (TimerFired h) s = fireTimer h s"

definition step :: "FocusIndicator \<Rightarrow> int \<times> event \<Rightarrow> FocusIndicator" where
  "step s te = handle (snd te) (s\<lparr>clock := fst te\<rparr>)"

definition run :: "(int \<times> event) list \<Rightarrow> FocusIndicator \<Rightarrow> FocusIndicator" where
  "run tes s = foldl step s tes"

text \<open>
  The states of an indicator that was constructed on a host without pending timers and
  then received any sequence of events.
\<close>

inductive reachable :: "FocusIndicator \<Rightarrow> bool" where
  reachable_construct: "timers h = [] \<Longrightarrow> reachable (construct h)"
| reachable_step: "reachable s \<Longrightarrow> reachable (step s te)"

subsection \<open>The connection caches of the home webview\<close>

text \<open>
  \<^verbatim>\<open>HomeWebviewProvider\<close> keeps two cached flags, \<^verbatim>\<open>hostedIntegrationConnected\<close> and
  \<^verbatim>\<open>_hostedIntegrationConnected\<close> (here \<open>anyIntegrationConnected\<close>, after the method that
  owns it). The integration service is the two lists of the connected integrations'
  ids (\<^verbatim>\<open>getConnected('hosting')\<close> and \<^verbatim>\<open>getConnected('issues')\<close>); the ids of GitHub and
  GitLab come from a module outside the sources and are parameters.
\<close>

record HomeWebviewProvider =
  connectedHosting :: "string list"
  connectedIssues :: "string list"
  gitHubId :: string
  gitLabId :: string
  hostedIntegrationConnected :: "bool option"
  anyIntegrationConnected :: "bool option"

definition isSupportedIntegration :: "HomeWebviewProvider \<Rightarrow> string \<Rightarrow> bool" where
  "isSupportedIntegration p key \<longleftrightarrow> key \<in> set [gitHubId p, gitLabId p]"

definition isAnyIntegrationConnected :: "bool \<Rightarrow> HomeWebviewProvider \<Rightarrow> bool \<times> HomeWebviewProvider" where
  "isAnyIntegrationConnected force p =
     (let recompute = (length (connectedHosting p @ connectedIssues p) > 0)
      in case anyIntegrationConnected p of
           None \<Rightarrow> (recompute, p\<lparr>anyIntegrationConnected := Some recompute\<rparr>)
         | Some b \<Rightarrow>
             if force then (recompute, p\<lparr>anyIntegrationConnected := Some recompute\<rparr>)
             else (b, p))"

definition isHostedIntegrationConnected :: "bool \<Rightarrow> HomeWebviewProvider \<Rightarrow> bool \<times> HomeWebviewProvider" where
  "isHostedIntegrationConnected force p =
     (let recompute = list_ex (isSupportedIntegration p) (connectedHosting p)
      in case hostedIntegrationConnected p of
           None \<Rightarrow> (recompute, p\<lparr>hostedIntegrationConnected := Some recompute\<rparr>)
         | Some b \<Rightarrow>
             if force then (recompute, p\<lparr>hostedIntegrationConnected := Some recompute\<rparr>)
             else (b, p))"

text \<open>
  Of the state that \<^verbatim>\<open>getState\<close> returns, the three fields that come from the caches;
  the other fields are read from collaborators and leave the provider as it is. The
  fields are evaluated in the order of the object literal.
\<close>

record HomeState =
  repoHostChecked :: bool
  repoHostConnected :: bool
  hasAnyIntegrationConnected :: bool

text \<open>\<^verbatim>\<open>getOnboardingState\<close>, as far as the caches go: the field \<^verbatim>\<open>repoHostChecked\<close>.\<close>

definition getOnboardingState :: "HomeWebviewProvider \<Rightarrow> bool \<times> HomeWebviewProvider" where
  "getOnboardingState p = isHostedIntegrationConnected False p"

definition getState :: "HomeWebviewProvider \<Rightarrow> HomeState \<times> HomeWebviewProvider" where
  "getState p =
     (let (checked, p1) = getOnboardingState p;
          (connected, p2) = isHostedIntegrationConnected False p1;
          (anyConnected, p3) = isAnyIntegrationConnected False p2
      in (\<lparr>repoHostChecked = checked, repoHostConnected = connected,
           hasAnyIntegrationConnected = anyConnected\<rparr>, p3))"

definition notifyDidChangeOnboardingIntegration :: "HomeWebviewProvider \<Rightarrow> HomeWebviewProvider" where
  "notifyDidChangeOnboardingIntegration p =
     (let (isConnected, p1) = isHostedIntegrationConnected True p
      in snd (getOnboardingState p1))"

definition notifyDidChangeOnboardingState :: "HomeWebviewProvider \<Rightarrow> HomeWebviewProvider" where
  "notifyDidChangeOnboardingState p = snd (getOnboardingState p)"

text \<open>
  The events of the provider that reach a cache: the bootstrap (\<^verbatim>\<open>includeBootstrap\<close>, which
  is \<^verbatim>\<open>getState\<close>), a connection state change, a usage change (with the test of
  \<^verbatim>\<open>onUsagesChanged\<close> on its key), a reload, and a change of the connected integrations in
  the integration service itself.
\<close>

datatype home_event =
  IncludeBootstrap
| ChangeConnectionState
| UsagesChanged bool
| Reloaded
| IntegrationsNow "string list" "string list"

fun home_handle :: "home_event \<Rightarrow> HomeWebviewProvider \<Rightarrow> HomeWebviewProvider" where
  "home_handle IncludeBootstrap p = snd (getState p)"
| "home_handle ChangeConnectionState p = notifyDidChangeOnboardingIntegration p"
| "home_handle (UsagesChanged repoHost) p =
     notifyDidChangeOnboardingState
       (if repoHost then notifyDidChangeOnboardingIntegration p else p)"
| "home_handle Reloaded p =
     notifyDidChangeOnboardingIntegration (notifyDidChangeOnboardingState p)"
| "home_handle (IntegrationsNow hosting issues) p =
     p\<lparr>connectedHosting := hosting, connectedIssues := issues\<rparr>"

definition home_run :: "home_event list \<Rightarrow> HomeWebviewProvider \<Rightarrow> HomeWebviewProvider" where
  "home_run es p = foldl (\<lambda>q e. home_handle e q) p es"

subsection \<open>Invariant and the formula of the specification\<close>

text \<open>
  What holds of the indicator between two handlers: the timers are accounted for, a
  disconnected indicator holds no timer handle, an indicator that shows items has recorded
  when it received them, and an indicator without a status bar item has never left
  \<^verbatim>\<open>'idle'\<close>.
\<close>

definition indicator_inv :: "FocusIndicator \<Rightarrow> bool" where
  "indicator_inv s \<longleftrightarrow>
     timers_ok s \<and>
     (state s = Disconnected \<longrightarrow> refreshTimer s = None) \<and>
     (state s = Load \<longrightarrow> lastDataUpdate s \<noteq> None) \<and>
     (statusBarFocus s = None \<longrightarrow> state s = Idle)"

text \<open>
  The compensated delay in the words of the specification, from the configured interval in
  milliseconds, the time of the refocus, the time of the last data update and the time at
  which the pause started.
\<close>

definition spec_compensatedDelay :: "int \<Rightarrow> int \<Rightarrow> int \<Rightarrow> int \<Rightarrow> int" where
  "spec_compensatedDelay interval now lastUpdate pauseStart =
     max 0 (max 0 (interval - (now - lastUpdate)) - (now - pauseStart))"

text \<open>Reading a decimal notation back, to say which count \<open>show_nat\<close> writes.\<close>

definition read_nat :: "string \<Rightarrow> nat" where
  "read_nat str = foldl (\<lambda>a c. 10 * a + (of_char c - 48)) 0 str"

text \<open>
  The state that a recomputation yields, from the configuration and from whether an
  integration is connected, and the configuration change events on which the handler
  recomputes the state: the event touches \<^verbatim>\<open>launchpad.indicator\<close> and changes
  \<^verbatim>\<open>polling.enabled\<close>, \<^verbatim>\<open>useColors\<close>, \<^verbatim>\<open>icon\<close>, \<^verbatim>\<open>label\<close> or \<^verbatim>\<open>groups\<close>.
\<close>

definition recomputedState :: "Configuration \<Rightarrow> bool \<Rightarrow> FocusIndicatorState" where
  "recomputedState c connected =
     (if \<not> polling_enabled c \<or> polling_interval c \<le> 0 then Idle
      else if \<not> connected then Disconnected
      else Loading)"

definition recomputes :: "string list \<Rightarrow> bool" where
  "recomputes e \<longleftrightarrow>
     changed e ''launchpad.indicator'' \<and>
     ((changed e ''launchpad.indicator.polling'' \<and> changed e ''launchpad.indicator.polling.enabled'')
      \<or> changed e ''launchpad.indicator.useColors''
      \<or> changed e ''launchpad.indicator.icon''
      \<or> changed e ''launchpad.indicator.label''
      \<or> changed e ''launchpad.indicator.groups'')"

subsection \<open>Concrete inputs\<close>

text \<open>
  Stand-ins for the imported helpers, a configuration and a host, on which the model is
  evaluated: \<open>pluralize_sample\<close> writes the count, the separator and the noun,
  \<open>groupByMap_sample\<close> groups in the order of first appearance, and the items are
  grouped by \<open>group_of_sample\<close>.
\<close>

definition pluralize_sample :: "string \<Rightarrow> nat \<Rightarrow> string option \<Rightarrow> string" where
  "pluralize_sample str n sep =
     show_nat n @ (case sep of Some i \<Rightarrow> i | None \<Rightarrow> '' '') @ str @ (if n = 1 then [] else ''s'')"

fun groupBy_insert ::
  "string \<Rightarrow> FocusItem \<Rightarrow> (string \<times> FocusItem list) list \<Rightarrow> (string \<times> FocusItem list) list" where
  "groupBy_insert k x [] = [(k, [x])]"
| "groupBy_insert k x ((k', xs) # m) =
     (if k = k' then (k', xs @ [x]) # m else (k', xs) # groupBy_insert k x m)"

definition groupByMap_sample ::
  "FocusItem list \<Rightarrow> (FocusItem \<Rightarrow> string) \<Rightarrow> (string \<times> FocusItem list) list" where
  "groupByMap_sample xs f = foldl (\<lambda>m x. groupBy_insert (f x) x m) [] xs"

definition group_of_sample :: "FocusItem \<Rightarrow> string" where
  "group_of_sample i =
     (if actionableCategory i = ''mergeable'' then ''mergeable''
      else if blockedKey i \<noteq> ''blocked'' then ''blocked''
      else if actionableCategory i = ''needs-my-review'' then ''needs-review''
      else ''other'')"

definition sampleExternals :: Externals where
  "sampleExternals =
     \<lparr>previewBadge = ''PREVIEW'', pluralize = pluralize_sample,
      groupAndSortFocusItems =
        (\<lambda>items. case items of None \<Rightarrow> [] | Some xs \<Rightarrow> groupByMap_sample xs group_of_sample),
      groupByMap = groupByMap_sample,
      supportedFocusIntegrations = [''github'']\<rparr>"

definition sampleConfiguration :: Configuration where
  "sampleConfiguration =
     \<lparr>indicator_enabled = True, indicator_openInEditor = False, polling_enabled = True,
      polling_interval = 30, indicator_useColors = True,
      indicator_groups = Some [''mergeable'', ''blocked''], indicator_label = Some ''item'',
      indicator_icon = Some ''default''\<rparr>"

definition sampleHost :: Host where
  "sampleHost =
     \<lparr>ext = sampleExternals, config = sampleConfiguration, hasConnectedIntegration = True,
      clock = 0, timers = [], nextTimer = 0, forcedRefreshes = 0, telemetry_enabled = True,
      storage_hasLoaded = None, telemetry_events = []\<rparr>"

definition pr :: "string \<Rightarrow> string \<Rightarrow> FocusItem" where
  "pr cat i =
     \<lparr>actionableCategory = cat, repository = Some (''gitkraken'', ''vscode-gitlens''),
      item_id = i\<rparr>"

text \<open>
  The indicator after its construction on the sample host (polling every 30 minutes, an
  integration connected): it is loading, and the timeout of 5 seconds is pending.
\<close>

definition s_loading :: FocusIndicator where
  "s_loading = construct sampleHost"

text \<open>
  Then the timeout fires at 5000 ms and the refresh completes at 6000 ms with two pull
  requests outside the configured groups.
\<close>

definition s_load :: FocusIndicator where
  "s_load =
     run [(5000, TimerFired 0),
          (6000, FocusRefreshed (Some [pr ''waiting-for-review'' ''12'', pr ''other'' ''7'']))]
       s_loading"

text \<open>The loading indicator when the configuration store has polling switched off.\<close>

definition s_paused_polling_off :: FocusIndicator where
  "s_paused_polling_off = s_loading\<lparr>config := sampleConfiguration\<lparr>polling_enabled := False\<rparr>\<rparr>"

text \<open>The indicator with items when the configured interval is one minute.\<close>

definition s_load_minute :: FocusIndicator where
  "s_load_minute = s_load\<lparr>config := sampleConfiguration\<lparr>polling_interval := 1\<rparr>\<rparr>"

text \<open>
  The indicator constructed while polling is enabled with an interval of 0 minutes, and
  the same indicator after the interval is set to 5 minutes at 1000 ms.
\<close>

definition s_idle_zero :: FocusIndicator where
  "s_idle_zero = construct (sampleHost\<lparr>config := sampleConfiguration\<lparr>polling_interval := 0\<rparr>\<rparr>)"

definition s_armed_idle :: FocusIndicator where
  "s_armed_idle =
     step s_idle_zero
       (1000, ConfigurationChanged [''launchpad.indicator.polling.interval'']
                (sampleConfiguration\<lparr>polling_interval := 5\<rparr>))"

text \<open>The indicator constructed while no integration is connected.\<close>

definition s_disconnected :: FocusIndicator where
  "s_disconnected = construct (sampleHost\<lparr>hasConnectedIntegration := False\<rparr>)"

text \<open>
  The indicator constructed while \<^verbatim>\<open>launchpad.indicator.enabled\<close> is off (it has no status
  bar item), and the same indicator after the interval is set to 10 minutes at 1000 ms.
\<close>

definition s_hidden :: FocusIndicator where
  "s_hidden = construct (sampleHost\<lparr>config := sampleConfiguration\<lparr>indicator_enabled := False\<rparr>\<rparr>)"

definition s_hidden_armed :: FocusIndicator where
  "s_hidden_armed =
     step s_hidden
       (1000, ConfigurationChanged [''launchpad.indicator.polling.interval'']
                (sampleConfiguration\<lparr>indicator_enabled := False, polling_interval := 10\<rparr>))"

text \<open>A home webview on a host with GitHub connected, before its first bootstrap.\<close>

definition sampleHome :: HomeWebviewProvider where
  "sampleHome =
     \<lparr>connectedHosting = [''github''], connectedIssues = [], gitHubId = ''github'',
      gitLabId = ''gitlab'', hostedIntegrationConnected = None, anyIntegrationConnected = None\<rparr>"

section \<open>Properties\<close>

subsection \<open>The timers under the invariant\<close>

text \<open>
  When the timers are accounted for, at most one is pending, and it is the one whose handle
  the indicator holds. Starting and clearing the scheduler then have closed forms.
\<close>

lemma timers_ok_cases:
  "timers_ok s \<longleftrightarrow>
     timers s = [] \<or> (\<exists>h t. timers s = [(h, t)] \<and> refreshTimer s = Some h \<and> h < nextTimer s)"
proof (cases "timers s")
  case Nil
  then show ?thesis by (simp add: timers_ok_def)
next
  case (Cons p ps)
  obtain h t where p: "p = (h, t)" by (cases p)
  show ?thesis
  proof (cases ps)
    case Nil
    with Cons p show ?thesis by (auto simp: timers_ok_def)
  next
    case (Cons q qs)
    obtain h' t' where q: "q = (h', t')" by (cases q)
    from \<open>timers s = p # ps\<close> Cons p q show ?thesis
      by (auto simp: timers_ok_def)
  qed
qed

lemma clearInterval_handle:
  "timers_ok s \<Longrightarrow> refreshTimer s = Some h \<Longrightarrow> timers (clearInterval h s) = []"
  by (auto simp: timers_ok_cases clearInterval_def)

lemma timers_ok_None:
  "timers_ok s \<Longrightarrow> refreshTimer s = None \<Longrightarrow> timers s = []"
  by (auto simp: timers_ok_cases)

lemma start_cleared:
  "timers_ok s \<Longrightarrow>
     (case refreshTimer s of Some h \<Rightarrow> clearInterval h s | None \<Rightarrow> s) = s\<lparr>timers := []\<rparr>"
  by (auto simp: timers_ok_cases clearInterval_def split: option.splits)

lemma startRefreshTimer_eq:
  "timers_ok s \<Longrightarrow>
   startRefreshTimer d s =
     (if \<not> polling_enabled (config s) \<or> state s = Disconnected \<or> polling_interval (config s) \<le> 0
      then s\<lparr>timers := []\<rparr>
      else s\<lparr>timers := [(nextTimer s,
                 case d of Some x \<Rightarrow> Timeout x (refreshInterval s)
                         | None \<Rightarrow> Interval (refreshInterval s))],
             nextTimer := Suc (nextTimer s), refreshTimer := Some (nextTimer s)\<rparr>)"
  unfolding startRefreshTimer_def
  by (simp add: start_cleared Let_def refreshInterval_def armTimer_def split: option.splits)

lemma clearRefreshTimer_eq:
  "timers_ok s \<Longrightarrow> clearRefreshTimer s = s\<lparr>timers := [], refreshTimer := None\<rparr>"
  by (auto simp: clearRefreshTimer_def timers_ok_cases clearInterval_def split: option.splits)

subsection \<open>Frames of the helpers\<close>

lemma timers_ok_frame:
  "timers s' = timers s \<Longrightarrow> refreshTimer s' = refreshTimer s \<Longrightarrow> nextTimer s' = nextTimer s
   \<Longrightarrow> timers_ok s' = timers_ok s"
  by (simp add: timers_ok_def)

lemma timers_ok_state [simp]: "timers_ok (s\<lparr>state := x\<rparr>) = timers_ok s"
  by (simp add: timers_ok_def)
lemma timers_ok_config [simp]: "timers_ok (s\<lparr>config := c\<rparr>) = timers_ok s"
  by (simp add: timers_ok_def)
lemma timers_ok_clock [simp]: "timers_ok (s\<lparr>clock := t\<rparr>) = timers_ok s"
  by (simp add: timers_ok_def)
lemma timers_ok_connected [simp]: "timers_ok (s\<lparr>hasConnectedIntegration := b\<rparr>) = timers_ok s"
  by (simp add: timers_ok_def)
lemma timers_ok_paused [simp]: "timers_ok (s\<lparr>lastRefreshPaused := p\<rparr>) = timers_ok s"
  by (simp add: timers_ok_def)
lemma timers_ok_statusBar [simp]: "timers_ok (s\<lparr>statusBarFocus := p\<rparr>) = timers_ok s"
  by (simp add: timers_ok_def)

lemma sendTelemetry_frame:
  "timers (sendTelemetryFirstLoadEvent s) = timers s"
  "refreshTimer (sendTelemetryFirstLoadEvent s) = refreshTimer s"
  "nextTimer (sendTelemetryFirstLoadEvent s) = nextTimer s"
  "state (sendTelemetryFirstLoadEvent s) = state s"
  "statusBarFocus (sendTelemetryFirstLoadEvent s) = statusBarFocus s"
  "lastRefreshPaused (sendTelemetryFirstLoadEvent s) = lastRefreshPaused s"
  "config (sendTelemetryFirstLoadEvent s) = config s"
  "ext (sendTelemetryFirstLoadEvent s) = ext s"
  "clock (sendTelemetryFirstLoadEvent s) = clock s"
  by (simp_all add: sendTelemetryFirstLoadEvent_def Let_def)

lemma setStatusBar_frame:
  "timers (setStatusBar a b c s) = timers s"
  "refreshTimer (setStatusBar a b c s) = refreshTimer s"
  "nextTimer (setStatusBar a b c s) = nextTimer s"
  "state (setStatusBar a b c s) = state s"
  "lastDataUpdate (setStatusBar a b c s) = lastDataUpdate s"
  "lastRefreshPaused (setStatusBar a b c s) = lastRefreshPaused s"
  "statusBarFocus (setStatusBar a b c s) = None \<longleftrightarrow> statusBarFocus s = None"
  by (simp_all add: setStatusBar_def)

lemma updateStatusBarWithItems_frame:
  "timers (updateStatusBarWithItems tt items s) = timers s"
  "refreshTimer (updateStatusBarWithItems tt items s) = refreshTimer s"
  "nextTimer (updateStatusBarWithItems tt items s) = nextTimer s"
  "state (updateStatusBarWithItems tt items s) = state s"
  "lastRefreshPaused (updateStatusBarWithItems tt items s) = lastRefreshPaused s"
  "statusBarFocus (updateStatusBarWithItems tt items s) = None \<longleftrightarrow> statusBarFocus s = None"
  by (auto simp: updateStatusBarWithItems_def Let_def setStatusBar_def sendTelemetry_frame
        split: option.splits prod.splits)

lemma updateStatusBarWithItems_lastDataUpdate:
  "statusBarFocus s \<noteq> None \<Longrightarrow>
   lastDataUpdate (updateStatusBarWithItems tt items s) = Some (clock s)"
  by (auto simp: updateStatusBarWithItems_def Let_def setStatusBar_frame sendTelemetry_frame
        split: option.splits prod.splits)

lemma inv_startRefreshTimer:
  "indicator_inv s \<Longrightarrow> indicator_inv (startRefreshTimer d s)"
  by (simp add: indicator_inv_def startRefreshTimer_eq timers_ok_cases)

lemma inv_clearRefreshTimer:
  "indicator_inv s \<Longrightarrow> indicator_inv (clearRefreshTimer s)"
  by (simp add: indicator_inv_def clearRefreshTimer_eq timers_ok_cases)

lemma inv_setStatusBar:
  "indicator_inv s \<Longrightarrow> indicator_inv (setStatusBar a b c s)"
  by (simp add: indicator_inv_def setStatusBar_frame timers_ok_frame [of "setStatusBar a b c s" s])

lemma inv_updateStatusBar:
  assumes "indicator_inv s"
  shows "indicator_inv (updateStatusBar st items s)"
proof (cases "statusBarFocus s")
  case None
  with assms show ?thesis by (simp add: updateStatusBar_def)
next
  case (Some sb)
  show ?thesis
  proof (cases "st = state s \<and> st \<noteq> Load")
    case True
    then have "updateStatusBar st items s = s"
      using Some by (auto simp: updateStatusBar_def)
    with assms show ?thesis by simp
  next
    case False
    have ok: "timers_ok s" using assms by (simp add: indicator_inv_def)
    show ?thesis
    proof (cases st)
      case Idle
      have "indicator_inv (clearRefreshTimer (s\<lparr>state := Idle\<rparr>))"
        using ok Some by (simp add: indicator_inv_def clearRefreshTimer_eq timers_ok_cases)
      then show ?thesis using Some False Idle
        by (simp add: updateStatusBar_def Let_def inv_setStatusBar)
    next
      case Disconnected
      have "indicator_inv (clearRefreshTimer (s\<lparr>state := Disconnected\<rparr>))"
        using ok Some by (simp add: indicator_inv_def clearRefreshTimer_eq timers_ok_cases)
      then show ?thesis using Some False Disconnected
        by (simp add: updateStatusBar_def Let_def inv_setStatusBar)
    next
      case Loading
      have "indicator_inv (startRefreshTimer (Some 5000) (s\<lparr>state := Loading\<rparr>))"
        using ok Some by (simp add: indicator_inv_def startRefreshTimer_eq timers_ok_cases)
      then show ?thesis using Some False Loading
        by (simp add: updateStatusBar_def Let_def inv_setStatusBar)
    next
      case Load
      let ?s1 = "s\<lparr>state := Load\<rparr>"
      have sb: "statusBarFocus ?s1 \<noteq> None" using Some by simp
      have "indicator_inv (updateStatusBarWithItems tt items ?s1)" for tt
        using ok sb
        by (simp add: indicator_inv_def updateStatusBarWithItems_frame
              updateStatusBarWithItems_lastDataUpdate
              timers_ok_frame [of "updateStatusBarWithItems tt items ?s1" ?s1])
      then show ?thesis using Some False Load
        by (simp add: updateStatusBar_def Let_def)
    qed
  qed
qed

lemma inv_updateStatusBarCommand:
  "indicator_inv s \<Longrightarrow> indicator_inv (updateStatusBarCommand s)"
  by (auto simp: indicator_inv_def updateStatusBarCommand_def Let_def split: option.splits)

lemma inv_maybeLoadData:
  "indicator_inv s \<Longrightarrow> indicator_inv (maybeLoadData s)"
  by (simp add: maybeLoadData_def inv_updateStatusBar)

lemma inv_onFocusRefreshed:
  "indicator_inv s \<Longrightarrow> indicator_inv (onFocusRefreshed items s)"
  by (simp add: onFocusRefreshed_def inv_updateStatusBar)

lemma inv_onConnectedIntegrationsChanged:
  "indicator_inv s \<Longrightarrow> indicator_inv (onConnectedIntegrationsChanged key s)"
  by (simp add: onConnectedIntegrationsChanged_def inv_maybeLoadData)

lemma inv_onConfigurationChanged:
  "indicator_inv s \<Longrightarrow> indicator_inv (onConfigurationChanged e s)"
  by (simp add: onConfigurationChanged_def Let_def inv_maybeLoadData inv_updateStatusBarCommand
        inv_startRefreshTimer)

lemma inv_paused:
  "indicator_inv s \<Longrightarrow> indicator_inv (s\<lparr>lastRefreshPaused := p\<rparr>)"
  by (simp add: indicator_inv_def)

lemma inv_onWindowStateChanged:
  "indicator_inv s \<Longrightarrow> indicator_inv (onWindowStateChanged focused s)"
  by (simp add: onWindowStateChanged_def Let_def inv_startRefreshTimer inv_clearRefreshTimer
        inv_paused split: option.splits)

lemma inv_fireTimer:
  assumes "indicator_inv s"
  shows "indicator_inv (fireTimer h s)"
proof -
  have ok: "timers_ok s" using assms by (simp add: indicator_inv_def)
  then consider "timers s = []"
    | h0 t where "timers s = [(h0, t)]" "refreshTimer s = Some h0" "h0 < nextTimer s"
    by (auto simp: timers_ok_cases)
  then show ?thesis
  proof cases
    case 1
    with assms show ?thesis by (simp add: fireTimer_def)
  next
    case 2
    with assms show ?thesis
      by (cases t)
         (auto simp: fireTimer_def indicator_inv_def timers_ok_cases clearInterval_def
            getCategorizedItems_force_def armTimer_def Let_def)
  qed
qed

lemma inv_step: "indicator_inv s \<Longrightarrow> indicator_inv (step s te)"
proof -
  assume a: "indicator_inv s"
  have c: "indicator_inv (s\<lparr>clock := t\<rparr>)" for t using a by (simp add: indicator_inv_def)
  have c1: "indicator_inv (s\<lparr>clock := t, config := c\<rparr>)" for t c
    using a by (simp add: indicator_inv_def)
  have c2: "indicator_inv (s\<lparr>clock := t, hasConnectedIntegration := b\<rparr>)" for t b
    using a by (simp add: indicator_inv_def)
  show ?thesis
    by (cases "snd te")
       (simp_all add: step_def c c1 c2 inv_onWindowStateChanged inv_onFocusRefreshed
          inv_onConfigurationChanged inv_onConnectedIntegrationsChanged inv_fireTimer)
qed

lemma ext_fields:
  "timers (Host.extend h (FocusIndicator.fields a b c d e)) = timers h"
  "nextTimer (Host.extend h (FocusIndicator.fields a b c d e)) = nextTimer h"
  "config (Host.extend h (FocusIndicator.fields a b c d e)) = config h"
  "statusBarFocus (Host.extend h (FocusIndicator.fields a b c d e)) = a"
  "refreshTimer (Host.extend h (FocusIndicator.fields a b c d e)) = b"
  "state (Host.extend h (FocusIndicator.fields a b c d e)) = c"
  "lastDataUpdate (Host.extend h (FocusIndicator.fields a b c d e)) = d"
  "lastRefreshPaused (Host.extend h (FocusIndicator.fields a b c d e)) = e"
  by (cases h; simp add: Host.defs FocusIndicator.defs)+

lemma inv_onReady: "indicator_inv s \<Longrightarrow> indicator_inv (onReady s)"
proof -
  assume a: "indicator_inv s"
  have b: "indicator_inv (s\<lparr>statusBarFocus := Some sb\<rparr>)" for sb
    using a by (auto simp: indicator_inv_def)
  have c: "indicator_inv s' \<Longrightarrow>
           indicator_inv (s'\<lparr>statusBarFocus := map_option f (statusBarFocus s')\<rparr>)" for s' f
    by (auto simp: indicator_inv_def)
  show ?thesis
    by (simp add: onReady_def Let_def a b c inv_maybeLoadData inv_updateStatusBarCommand)
qed

lemma inv_construct: "timers h = [] \<Longrightarrow> indicator_inv (construct h)"
  unfolding construct_def
  by (rule inv_onReady) (simp add: indicator_inv_def timers_ok_def ext_fields)

text \<open>Every state that the indicator reaches satisfies the invariant.\<close>

lemma reachable_inv: "reachable s \<Longrightarrow> indicator_inv s"
  by (induction rule: reachable.induct) (simp_all add: inv_construct inv_step)

subsection \<open>Evaluation of the concrete inputs\<close>

lemmas eval_defs =
  construct_def onReady_def maybeLoadData_def updateStatusBar_def updateStatusBarCommand_def
  startRefreshTimer_def clearRefreshTimer_def clearInterval_def armTimer_def refreshInterval_def
  setStatusBar_def sampleHost_def sampleConfiguration_def Host.defs FocusIndicator.defs
  step_def onConfigurationChanged_def changed_def Let_def fireTimer_def
  getCategorizedItems_force_def onFocusRefreshed_def onWindowStateChanged_def run_def

lemma s_loading_fields:
  "state s_loading = Loading" "refreshTimer s_loading = Some 0"
  "timers s_loading = [(0, Timeout 5000 1800000)]" "nextTimer s_loading = 1"
  "lastDataUpdate s_loading = None" "lastRefreshPaused s_loading = None"
  "config s_loading = sampleConfiguration" "statusBarFocus s_loading \<noteq> None"
  by (simp_all add: s_loading_def eval_defs)

lemma s_idle_zero_fields:
  "state s_idle_zero = Idle" "refreshTimer s_idle_zero = None"
  "timers s_idle_zero = []" "statusBarFocus s_idle_zero \<noteq> None"
  by (simp_all add: s_idle_zero_def eval_defs)

lemma s_armed_idle_fields:
  "state s_armed_idle = Idle" "refreshTimer s_armed_idle = Some 0"
  "timers s_armed_idle = [(0, Interval 300000)]" 
  by (simp_all add: s_armed_idle_def s_idle_zero_def eval_defs)

lemma s_load_fields:
  "state s_load = Load" "refreshTimer s_load = Some 1"
  "timers s_load = [(1, Interval 1800000)]" "nextTimer s_load = 2"
  "lastDataUpdate s_load = Some 6000" "lastRefreshPaused s_load = None"
  "config s_load = sampleConfiguration"
  by (simp_all add: s_load_def s_loading_def eval_defs updateStatusBarWithItems_def
        sendTelemetryFirstLoadEvent_def case_prod_beta)

lemma startRefreshTimer_frame:
  "state (startRefreshTimer d s) = state s"
  "lastDataUpdate (startRefreshTimer d s) = lastDataUpdate s"
  "lastRefreshPaused (startRefreshTimer d s) = lastRefreshPaused s"
  "config (startRefreshTimer d s) = config s"
  "statusBarFocus (startRefreshTimer d s) = statusBarFocus s"
  by (simp_all add: startRefreshTimer_def clearInterval_def armTimer_def Let_def
        split: option.splits)

lemma clearRefreshTimer_frame:
  "state (clearRefreshTimer s) = state s"
  "lastDataUpdate (clearRefreshTimer s) = lastDataUpdate s"
  "lastRefreshPaused (clearRefreshTimer s) = lastRefreshPaused s"
  "config (clearRefreshTimer s) = config s"
  "statusBarFocus (clearRefreshTimer s) = statusBarFocus s"
  "nextTimer (clearRefreshTimer s) = nextTimer s"
  "clock (clearRefreshTimer s) = clock s"
  by (simp_all add: clearRefreshTimer_def clearInterval_def split: option.splits)

subsection \<open>The refresh scheduler\<close>

text \<open>
  Claim C3. For every call of the scheduler's start operation, with or without an initial
  delay, on an indicator whose timers are accounted for: if polling is disabled, or the
  configured interval is at most 0, or the state is \<^verbatim>\<open>'disconnected'\<close>, the call arms nothing
  and no timer is pending afterwards (nothing but the pending timers changes); otherwise
  the timer that was pending is cancelled and exactly one new timer is pending, under a fresh
  handle that the indicator now holds: a timeout of the initial delay when one is given,
  the repeating timer otherwise.
\<close>

theorem startRefreshTimer_contract:
  assumes "timers_ok s"
  shows "(\<not> polling_enabled (config s) \<or> polling_interval (config s) \<le> 0 \<or> state s = Disconnected
            \<longrightarrow> startRefreshTimer firstDelay s = s\<lparr>timers := []\<rparr>
                \<and> timers (startRefreshTimer firstDelay s) = [])
       \<and> (polling_enabled (config s) \<and> 0 < polling_interval (config s) \<and> state s \<noteq> Disconnected
            \<longrightarrow> startRefreshTimer firstDelay s =
                  s\<lparr>timers := [(nextTimer s,
                                 case firstDelay of
                                   Some d \<Rightarrow> Timeout d (refreshInterval s)
                                 | None \<Rightarrow> Interval (refreshInterval s))],
                    nextTimer := Suc (nextTimer s), refreshTimer := Some (nextTimer s)\<rparr>
                \<and> nextTimer s \<notin> fst ` set (timers s))"
proof -
  have fresh: "nextTimer s \<notin> fst ` set (timers s)"
    using assms by (auto simp: timers_ok_def)
  show ?thesis
    using fresh by (simp add: startRefreshTimer_eq [OF assms])
qed

theorem startRefreshTimer_contract_witness:
  "timers_ok s_loading \<and> timers s_loading = [(0, Timeout 5000 1800000)]
   \<and> timers (startRefreshTimer None s_loading) = [(1, Interval 1800000)]
   \<and> refreshTimer (startRefreshTimer None s_loading) = Some 1
   \<and> timers_ok s_paused_polling_off \<and> timers s_paused_polling_off = [(0, Timeout 5000 1800000)]
   \<and> timers (startRefreshTimer (Some 0) s_paused_polling_off) = []"
proof -
  have ok1: "timers_ok s_loading"
    by (simp add: timers_ok_def s_loading_fields)
  have ok2: "timers_ok s_paused_polling_off"
    by (simp add: timers_ok_def s_paused_polling_off_def s_loading_fields)
  have a: "timers (startRefreshTimer None s_loading) = [(1, Interval 1800000)]
           \<and> refreshTimer (startRefreshTimer None s_loading) = Some 1"
    using startRefreshTimer_contract [OF ok1, of None]
    by (simp add: s_loading_fields sampleConfiguration_def refreshInterval_def)
  have b: "timers (startRefreshTimer (Some 0) s_paused_polling_off) = []"
    using startRefreshTimer_contract [OF ok2, of "Some 0"]
    by (simp add: s_paused_polling_off_def)
  show ?thesis using ok1 ok2 a b
    by (simp add: s_loading_fields s_paused_polling_off_def)
qed

lemma clearRefreshTimer_idem: "clearRefreshTimer (clearRefreshTimer s) = clearRefreshTimer s"
  by (simp add: clearRefreshTimer_def clearInterval_def split: option.splits)

lemma timers_ok_startRefreshTimer: "timers_ok s \<Longrightarrow> timers_ok (startRefreshTimer d s)"
  by (simp add: startRefreshTimer_eq timers_ok_cases)

lemma timers_ok_length: "timers_ok s \<Longrightarrow> length (timers s) \<le> 1"
  by (auto simp: timers_ok_cases)

text \<open>
  Claim C4. At most one timer is pending at any time: a start cancels the timer that was
  pending before it arms a new one, two starts in a row leave at most one pending timer,
  every reachable state has at most one pending timer, and clearing the scheduler twice is
  clearing it once.
\<close>

theorem at_most_one_timer:
  "(timers_ok s \<longrightarrow>
      length (timers (startRefreshTimer d1 s)) \<le> 1
      \<and> (\<forall>p \<in> set (timers s). p \<notin> set (timers (startRefreshTimer d1 s)))
      \<and> length (timers (startRefreshTimer d2 (startRefreshTimer d1 s))) \<le> 1)
   \<and> (reachable s \<longrightarrow> length (timers s) \<le> 1)
   \<and> clearRefreshTimer (clearRefreshTimer s) = clearRefreshTimer s"
proof (intro conjI impI)
  assume ok: "timers_ok s"
  then have ok1: "timers_ok (startRefreshTimer d1 s)" by (rule timers_ok_startRefreshTimer)
  then have ok2: "timers_ok (startRefreshTimer d2 (startRefreshTimer d1 s))"
    by (rule timers_ok_startRefreshTimer)
  from ok1 show "length (timers (startRefreshTimer d1 s)) \<le> 1" by (rule timers_ok_length)
  from ok2 show "length (timers (startRefreshTimer d2 (startRefreshTimer d1 s))) \<le> 1"
    by (rule timers_ok_length)
  show "\<forall>p \<in> set (timers s). p \<notin> set (timers (startRefreshTimer d1 s))"
    using ok by (auto simp: startRefreshTimer_eq timers_ok_def)
next
  assume "reachable s"
  then have "timers_ok s" using reachable_inv by (simp add: indicator_inv_def)
  then show "length (timers s) \<le> 1" by (rule timers_ok_length)
next
  show "clearRefreshTimer (clearRefreshTimer s) = clearRefreshTimer s"
    by (rule clearRefreshTimer_idem)
qed

theorem at_most_one_timer_witness:
  "timers_ok s_loading \<and> reachable s_loading
   \<and> timers s_loading = [(0, Timeout 5000 1800000)]
   \<and> (0, Timeout 5000 1800000) \<notin> set (timers (startRefreshTimer None s_loading))
   \<and> length (timers (startRefreshTimer (Some 0) (startRefreshTimer None s_loading))) \<le> 1
   \<and> length (timers s_loading) \<le> 1"
proof -
  have ok: "timers_ok s_loading"
    by (simp add: timers_ok_def s_loading_fields)
  have r: "reachable s_loading"
    unfolding s_loading_def by (rule reachable_construct) (simp add: sampleHost_def)
  show ?thesis
    using at_most_one_timer [of s_loading None "Some 0"] ok r
    by (simp add: s_loading_fields)
qed

text \<open>Disposing the indicator cancels the pending timer and releases the status bar item.\<close>

lemma dispose_clears:
  "timers_ok s \<Longrightarrow>
   timers (dispose s) = [] \<and> refreshTimer (dispose s) = None \<and> statusBarFocus (dispose s) = None"
  by (simp add: dispose_def clearRefreshTimer_eq)

subsection \<open>The focus-pause compensator\<close>

text \<open>The refocus of an indicator that shows items and has a recorded pause start.\<close>

lemma refocus_load:
  assumes "state s = Load" "lastRefreshPaused s = Some p"
  shows "onWindowStateChanged True s =
         startRefreshTimer
           (Some (max 0 (max 0 (case lastDataUpdate s of
                                  Some u \<Rightarrow> refreshInterval s - (clock s - u)
                                | None \<Rightarrow> refreshInterval s) - (clock s - p))))
           (s\<lparr>lastRefreshPaused := None\<rparr>)"
proof -
  have eq: "(if (if a < 0 then 0 else a) - b < 0 then 0 else (if a < 0 then 0 else a) - b)
            = max 0 (max 0 a - b)" for a b :: int
    by (simp add: max_def)
  show ?thesis
    using assms
    by (cases "lastDataUpdate s")
       (simp_all add: onWindowStateChanged_def Let_def eq refreshInterval_def)
qed

text \<open>
  Claim C1. The window loses the focus at \<open>t1\<close> and regains it at \<open>t2\<close> while the state
  is \<^verbatim>\<open>'load'\<close>, the last data update was recorded at \<open>u\<close> and nothing else happens in
  between. The unfocus records \<open>t1\<close> as the pause start; the refocus calls the scheduler's
  start operation with the initial delay
  \<open>max(0, max(0, interval - (t2 - u)) - (t2 - t1))\<close> and clears the pause start. When the
  scheduler may arm (polling enabled, interval positive), the one pending timer afterwards
  is the timeout of that delay.
\<close>

theorem unfocus_refocus_delay:
  assumes "state s = Load" and "lastDataUpdate s = Some u"
  shows "lastRefreshPaused (step s (t1, WindowStateChanged False)) = Some t1
       \<and> step (step s (t1, WindowStateChanged False)) (t2, WindowStateChanged True) =
           startRefreshTimer (Some (spec_compensatedDelay (refreshInterval s) t2 u t1))
             ((step s (t1, WindowStateChanged False))\<lparr>clock := t2, lastRefreshPaused := None\<rparr>)
       \<and> lastRefreshPaused
           (step (step s (t1, WindowStateChanged False)) (t2, WindowStateChanged True)) = None
       \<and> (timers_ok s \<and> polling_enabled (config s) \<and> 0 < polling_interval (config s) \<longrightarrow>
            timers (step (step s (t1, WindowStateChanged False)) (t2, WindowStateChanged True)) =
              [(nextTimer s,
                Timeout (spec_compensatedDelay (refreshInterval s) t2 u t1) (refreshInterval s))]
            \<and> refreshTimer
                (step (step s (t1, WindowStateChanged False)) (t2, WindowStateChanged True)) =
                Some (nextTimer s))"
proof -
  let ?s1 = "step s (t1, WindowStateChanged False)"
  let ?s1' = "?s1\<lparr>clock := t2\<rparr>"
  let ?d = "spec_compensatedDelay (refreshInterval s) t2 u t1"
  have s1: "?s1 = (clearRefreshTimer (s\<lparr>clock := t1\<rparr>))\<lparr>lastRefreshPaused := Some t1\<rparr>"
    using assms(1) by (simp add: step_def onWindowStateChanged_def)
  have f1: "state ?s1' = Load" "lastRefreshPaused ?s1' = Some t1" "lastDataUpdate ?s1' = Some u"
           "clock ?s1' = t2" "refreshInterval ?s1' = refreshInterval s"
    using assms by (simp_all add: s1 clearRefreshTimer_frame refreshInterval_def)
  have s2: "step ?s1 (t2, WindowStateChanged True) =
            startRefreshTimer (Some ?d) (?s1\<lparr>clock := t2, lastRefreshPaused := None\<rparr>)"
    using refocus_load [OF f1(1) f1(2)] f1
    by (simp add: step_def spec_compensatedDelay_def)
  have p1: "lastRefreshPaused ?s1 = Some t1" by (simp add: s1)
  have p2: "lastRefreshPaused (step ?s1 (t2, WindowStateChanged True)) = None"
    by (simp add: s2 startRefreshTimer_frame)
  have arm: "timers (step ?s1 (t2, WindowStateChanged True)) =
               [(nextTimer s, Timeout ?d (refreshInterval s))]
             \<and> refreshTimer (step ?s1 (t2, WindowStateChanged True)) = Some (nextTimer s)"
    if ok: "timers_ok s" and en: "polling_enabled (config s)" "0 < polling_interval (config s)"
  proof -
    have ok0: "timers_ok (s\<lparr>clock := t1\<rparr>)" using ok by simp
    have c: "clearRefreshTimer (s\<lparr>clock := t1\<rparr>) = s\<lparr>clock := t1, timers := [], refreshTimer := None\<rparr>"
      by (simp add: clearRefreshTimer_eq [OF ok0])
    have ok1: "timers_ok (?s1\<lparr>clock := t2, lastRefreshPaused := None\<rparr>)"
      by (simp add: s1 c timers_ok_def)
    show ?thesis
      using en assms(1)
      by (simp add: s2 startRefreshTimer_eq [OF ok1]) (simp add: s1 c refreshInterval_def)
  qed
  show ?thesis using p1 s2 p2 arm by simp
qed

theorem unfocus_refocus_delay_witness:
  "state s_load_minute = Load \<and> lastDataUpdate s_load_minute = Some 6000
   \<and> timers_ok s_load_minute \<and> polling_enabled (config s_load_minute)
   \<and> 0 < polling_interval (config s_load_minute)
   \<and> lastRefreshPaused (step s_load_minute (11000, WindowStateChanged False)) = Some 11000
   \<and> timers (step (step s_load_minute (11000, WindowStateChanged False))
               (16000, WindowStateChanged True)) = [(2, Timeout 45000 60000)]
   \<and> lastRefreshPaused (step (step s_load_minute (11000, WindowStateChanged False))
               (16000, WindowStateChanged True)) = None"
proof -
  have h1: "state s_load_minute = Load" and h2: "lastDataUpdate s_load_minute = Some 6000"
    by (simp_all add: s_load_minute_def s_load_fields)
  have ok: "timers_ok s_load_minute"
    by (simp add: s_load_minute_def timers_ok_def s_load_fields)
  have cfg: "polling_enabled (config s_load_minute)" "0 < polling_interval (config s_load_minute)"
            "refreshInterval s_load_minute = 60000" "nextTimer s_load_minute = 2"
    by (simp_all add: s_load_minute_def sampleConfiguration_def refreshInterval_def s_load_fields)
  have "lastRefreshPaused (step s_load_minute (11000, WindowStateChanged False)) = Some 11000
      \<and> timers (step (step s_load_minute (11000, WindowStateChanged False))
                  (16000, WindowStateChanged True)) =
          [(nextTimer s_load_minute,
            Timeout (spec_compensatedDelay (refreshInterval s_load_minute) 16000 6000 11000)
              (refreshInterval s_load_minute))]
      \<and> lastRefreshPaused (step (step s_load_minute (11000, WindowStateChanged False))
                  (16000, WindowStateChanged True)) = None"
    using unfocus_refocus_delay [OF h1 h2, of 11000 16000] ok cfg(1,2) by blast
  then show ?thesis
    using h1 h2 ok cfg by (simp add: spec_compensatedDelay_def)
qed

text \<open>
  Claim C7 speaks of a refocus in state \<^verbatim>\<open>'load'\<close> while no data update was ever recorded.
  No reachable state is such: the only transition into \<^verbatim>\<open>'load'\<close> records the data update.
  An indicator that was never updated and is refocused after a pause is loading, and its
  scheduler is started with the fixed delay of 5000 ms.
\<close>

lemma load_has_data_update:
  "reachable s \<Longrightarrow> state s = Load \<Longrightarrow> lastDataUpdate s \<noteq> None"
  using reachable_inv by (simp add: indicator_inv_def)

lemma never_updated_refocus:
  assumes "reachable s" and "lastDataUpdate s = None" and "lastRefreshPaused s = Some p"
    and "state s \<noteq> Idle" and "state s \<noteq> Disconnected"
  shows "state s = Loading \<and> onWindowStateChanged True s = startRefreshTimer (Some 5000) s"
proof -
  have "state s \<noteq> Load" using reachable_inv [OF assms(1)] assms(2) by (auto simp: indicator_inv_def)
  with assms(4,5) have l: "state s = Loading" by (cases "state s") simp_all
  then show ?thesis using assms(3) by (simp add: onWindowStateChanged_def)
qed

subsection \<open>The indicator state machine\<close>

lemma updateStatusBar_None: "statusBarFocus s = None \<Longrightarrow> updateStatusBar st items s = s"
  by (simp add: updateStatusBar_def)

lemma updateStatusBar_state:
  "statusBarFocus s \<noteq> None \<Longrightarrow> state (updateStatusBar st items s) = st"
  by (cases st)
     (auto simp: updateStatusBar_def Let_def setStatusBar_frame startRefreshTimer_frame
        clearRefreshTimer_frame updateStatusBarWithItems_frame)

lemma updateStatusBarCommand_state: "state (updateStatusBarCommand s) = state s"
  by (simp add: updateStatusBarCommand_def Let_def split: option.splits)

lemma maybeLoadData_with_bar:
  "statusBarFocus s \<noteq> None \<Longrightarrow>
   state (maybeLoadData s) =
     (if \<not> polling_enabled (config s) \<or> polling_interval (config s) \<le> 0 then Idle
      else if \<not> hasConnectedIntegration s then Disconnected
      else Loading)"
  by (auto simp: maybeLoadData_def updateStatusBar_state)

lemma ext_host_fields:
  "hasConnectedIntegration (Host.extend h (FocusIndicator.fields a b c d e)) = hasConnectedIntegration h"
  "ext (Host.extend h (FocusIndicator.fields a b c d e)) = ext h"
  "clock (Host.extend h (FocusIndicator.fields a b c d e)) = clock h"
  by (cases h; simp add: Host.defs FocusIndicator.defs)+

lemma construct_state:
  "state (construct h) =
     (if \<not> indicator_enabled (config h) \<or> \<not> polling_enabled (config h)
         \<or> polling_interval (config h) \<le> 0 then Idle
      else if \<not> hasConnectedIntegration h then Disconnected
      else Loading)"
proof (cases "indicator_enabled (config h)")
  case False
  then show ?thesis by (simp add: construct_def onReady_def ext_fields)
next
  case True
  let ?s0 = "Host.extend h (FocusIndicator.fields None None Idle None None)"
  let ?s1 = "?s0\<lparr>statusBarFocus :=
                Some \<lparr>sb_name = ''GitLens Launchpad'', sb_text = [], sb_tooltip = None,
                      sb_color = None, sb_command = None, sb_shown = False\<rparr>\<rparr>"
  have bar: "statusBarFocus ?s1 \<noteq> None" by simp
  have "state (construct h) = state (maybeLoadData ?s1)"
    using True by (simp add: construct_def onReady_def Let_def ext_fields updateStatusBarCommand_state)
  also have "\<dots> = (if \<not> polling_enabled (config ?s1) \<or> polling_interval (config ?s1) \<le> 0 then Idle
      else if \<not> hasConnectedIntegration ?s1 then Disconnected else Loading)"
    by (rule maybeLoadData_with_bar [OF bar])
  finally show ?thesis using True by (simp add: ext_fields ext_host_fields)
qed

lemma sendTelemetry_env:
  "hasConnectedIntegration (sendTelemetryFirstLoadEvent s) = hasConnectedIntegration s"
  by (simp add: sendTelemetryFirstLoadEvent_def Let_def)

lemma startRefreshTimer_env:
  "hasConnectedIntegration (startRefreshTimer d s) = hasConnectedIntegration s"
  by (simp add: startRefreshTimer_def clearInterval_def armTimer_def Let_def split: option.splits)

lemma clearRefreshTimer_env:
  "hasConnectedIntegration (clearRefreshTimer s) = hasConnectedIntegration s"
  by (simp add: clearRefreshTimer_def clearInterval_def split: option.splits)

lemma updateStatusBarWithItems_env:
  "config (updateStatusBarWithItems tt items s) = config s"
  "hasConnectedIntegration (updateStatusBarWithItems tt items s) = hasConnectedIntegration s"
  by (auto simp: updateStatusBarWithItems_def Let_def setStatusBar_def sendTelemetry_frame
        sendTelemetry_env split: option.splits prod.splits)

lemma updateStatusBar_env:
  "config (updateStatusBar st items s) = config s"
  "hasConnectedIntegration (updateStatusBar st items s) = hasConnectedIntegration s"
  "statusBarFocus (updateStatusBar st items s) = None \<longleftrightarrow> statusBarFocus s = None"
  by (cases st;
      auto simp: updateStatusBar_def Let_def setStatusBar_def startRefreshTimer_frame
        startRefreshTimer_env clearRefreshTimer_frame clearRefreshTimer_env
        updateStatusBarWithItems_env updateStatusBarWithItems_frame split: option.splits)+

lemma maybeLoadData_env:
  "config (maybeLoadData s) = config s"
  "hasConnectedIntegration (maybeLoadData s) = hasConnectedIntegration s"
  "statusBarFocus (maybeLoadData s) = None \<longleftrightarrow> statusBarFocus s = None"
  by (simp_all add: maybeLoadData_def updateStatusBar_env)

lemma updateStatusBarCommand_env:
  "config (updateStatusBarCommand s) = config s"
  "hasConnectedIntegration (updateStatusBarCommand s) = hasConnectedIntegration s"
  "statusBarFocus (updateStatusBarCommand s) = None \<longleftrightarrow> statusBarFocus s = None"
  by (simp_all add: updateStatusBarCommand_def Let_def split: option.splits)

lemma maybeLoadData_recomputed:
  "statusBarFocus s \<noteq> None \<Longrightarrow>
   state (maybeLoadData s) = recomputedState (config s) (hasConnectedIntegration s)"
  by (simp add: maybeLoadData_with_bar recomputedState_def)

lemma maybeLoadData_no_bar: "statusBarFocus s = None \<Longrightarrow> maybeLoadData s = s"
  by (simp add: maybeLoadData_def updateStatusBar_None)

lemma onConfigurationChanged_recomputed:
  assumes bar: "statusBarFocus s \<noteq> None" and re: "recomputes e"
  shows "state (onConfigurationChanged e s) = recomputedState (config s) (hasConnectedIntegration s)"
proof -
  let ?r = "recomputedState (config s) (hasConnectedIntegration s)"
  define s1 where "s1 = (if changed e ''launchpad.indicator.openInEditor''
                         then updateStatusBarCommand s else s)"
  have e1: "config s1 = config s" "hasConnectedIntegration s1 = hasConnectedIntegration s"
           "statusBarFocus s1 \<noteq> None"
    using bar by (simp_all add: s1_def updateStatusBarCommand_env del: not_None_eq)
  have m: "state (maybeLoadData x) = ?r"
    if "config x = config s" "hasConnectedIntegration x = hasConnectedIntegration s"
       "statusBarFocus x \<noteq> None" for x
    using that maybeLoadData_recomputed [of x] by simp
  have m1: "state (maybeLoadData s1) = ?r" using e1 by (rule m)
  have m2: "state (maybeLoadData (maybeLoadData s1)) = ?r"
    using e1 by (intro m) (simp_all add: maybeLoadData_env del: not_None_eq)
  have m3: "state (maybeLoadData (startRefreshTimer None s1)) = ?r"
    using e1 by (intro m) (simp_all add: startRefreshTimer_frame startRefreshTimer_env del: not_None_eq)
  show ?thesis
    using re m [OF e1] m1 m2 m3
    unfolding onConfigurationChanged_def recomputes_def Let_def s1_def [symmetric]
    by (auto simp: updateStatusBarCommand_state)
qed

lemma onConfigurationChanged_no_bar:
  "statusBarFocus s = None \<Longrightarrow> state (onConfigurationChanged e s) = state s"
  by (simp add: onConfigurationChanged_def Let_def updateStatusBarCommand_def maybeLoadData_no_bar
        startRefreshTimer_frame)

text \<open>
  The events that change one of the five keys recompute the state; the event that changes
  only the polling interval is not among them.
\<close>

lemma changed_key:
  "k \<in> set e \<Longrightarrow> k = section \<or> prefix (section @ ''.'') k \<Longrightarrow> changed e section"
  by (auto simp: changed_def list_ex_iff)

lemma recomputes_polling_enabled:
  assumes "''launchpad.indicator.polling.enabled'' \<in> set e"
  shows "recomputes e"
proof -
  have "changed e ''launchpad.indicator''" "changed e ''launchpad.indicator.polling''"
       "changed e ''launchpad.indicator.polling.enabled''"
    by (rule changed_key [OF assms], simp)+
  then show ?thesis unfolding recomputes_def by blast
qed

lemma recomputes_useColors:
  assumes "''launchpad.indicator.useColors'' \<in> set e"
  shows "recomputes e"
proof -
  have "changed e ''launchpad.indicator''" "changed e ''launchpad.indicator.useColors''"
    by (rule changed_key [OF assms], simp)+
  then show ?thesis unfolding recomputes_def by blast
qed

lemma recomputes_icon:
  assumes "''launchpad.indicator.icon'' \<in> set e"
  shows "recomputes e"
proof -
  have "changed e ''launchpad.indicator''" "changed e ''launchpad.indicator.icon''"
    by (rule changed_key [OF assms], simp)+
  then show ?thesis unfolding recomputes_def by blast
qed

lemma recomputes_label:
  assumes "''launchpad.indicator.label'' \<in> set e"
  shows "recomputes e"
proof -
  have "changed e ''launchpad.indicator''" "changed e ''launchpad.indicator.label''"
    by (rule changed_key [OF assms], simp)+
  then show ?thesis unfolding recomputes_def by blast
qed

lemma recomputes_groups:
  assumes "''launchpad.indicator.groups'' \<in> set e"
  shows "recomputes e"
proof -
  have "changed e ''launchpad.indicator''" "changed e ''launchpad.indicator.groups''"
    by (rule changed_key [OF assms], simp)+
  then show ?thesis unfolding recomputes_def by blast
qed

lemma sample_changes:
  "recomputes [''launchpad.indicator.polling.enabled'']"
  "recomputes [''launchpad.indicator.icon'']"
  "\<not> recomputes [''launchpad.indicator.polling.interval'']"
  by (simp_all add: recomputes_def changed_def)

lemma s_load_host_fields:
  "statusBarFocus s_load \<noteq> None" "hasConnectedIntegration s_load"
  by (simp_all add: s_load_def s_loading_def eval_defs updateStatusBarWithItems_def
        sendTelemetryFirstLoadEvent_def case_prod_beta)

lemma s_hidden_fields:
  "statusBarFocus s_hidden = None" "state s_hidden = Idle" "timers s_hidden = []"
  "refreshTimer s_hidden = None" "config s_hidden = sampleConfiguration\<lparr>indicator_enabled := False\<rparr>"
  by (simp_all add: s_hidden_def eval_defs)

text \<open>
  Claim C6, as the code has it. On startup, and on a configuration change that changes
  \<^verbatim>\<open>polling.enabled\<close>, \<^verbatim>\<open>useColors\<close>, \<^verbatim>\<open>icon\<close>, \<^verbatim>\<open>label\<close> or \<^verbatim>\<open>groups\<close>, an indicator with
  a status bar item is afterwards in the recomputed state: \<^verbatim>\<open>'idle'\<close> if polling is disabled
  or the configured interval is at most 0, otherwise \<^verbatim>\<open>'disconnected'\<close> if no integration is
  connected, otherwise \<^verbatim>\<open>'loading'\<close>. The same holds of \<^verbatim>\<open>maybeLoadData\<close> itself. Without a
  status bar item the state stays as it is, and on startup the state is \<^verbatim>\<open>'idle'\<close> when the
  indicator is not enabled.
\<close>

theorem recomputed_indicator_state:
  "(statusBarFocus s \<noteq> None
      \<and> (''launchpad.indicator.polling.enabled'' \<in> set e
         \<or> ''launchpad.indicator.useColors'' \<in> set e \<or> ''launchpad.indicator.icon'' \<in> set e
         \<or> ''launchpad.indicator.label'' \<in> set e \<or> ''launchpad.indicator.groups'' \<in> set e)
      \<longrightarrow>
      state (handle (ConfigurationChanged e c) s) = recomputedState c (hasConnectedIntegration s))
   \<and> (statusBarFocus s \<noteq> None \<and> recomputes e \<longrightarrow>
      state (handle (ConfigurationChanged e c) s) = recomputedState c (hasConnectedIntegration s))
   \<and> (statusBarFocus s = None \<longrightarrow> state (handle (ConfigurationChanged e c) s) = state s)
   \<and> (statusBarFocus s \<noteq> None \<longrightarrow>
        state (maybeLoadData s) = recomputedState (config s) (hasConnectedIntegration s))
   \<and> (statusBarFocus s = None \<longrightarrow> maybeLoadData s = s)
   \<and> state (construct h) =
        (if indicator_enabled (config h) then recomputedState (config h) (hasConnectedIntegration h)
         else Idle)"
proof -
  have a: "statusBarFocus s \<noteq> None \<and> recomputes e \<longrightarrow>
      state (handle (ConfigurationChanged e c) s) = recomputedState c (hasConnectedIntegration s)"
    using onConfigurationChanged_recomputed [of "s\<lparr>config := c\<rparr>" e] by simp
  have b: "statusBarFocus s = None \<longrightarrow> state (handle (ConfigurationChanged e c) s) = state s"
    using onConfigurationChanged_no_bar [of "s\<lparr>config := c\<rparr>" e] by simp
  have d: "state (construct h) =
        (if indicator_enabled (config h) then recomputedState (config h) (hasConnectedIntegration h)
         else Idle)"
    by (simp add: construct_state recomputedState_def)
  have k: "''launchpad.indicator.polling.enabled'' \<in> set e
         \<or> ''launchpad.indicator.useColors'' \<in> set e \<or> ''launchpad.indicator.icon'' \<in> set e
         \<or> ''launchpad.indicator.label'' \<in> set e \<or> ''launchpad.indicator.groups'' \<in> set e
         \<longrightarrow> recomputes e"
    using recomputes_polling_enabled [of e] recomputes_useColors [of e] recomputes_icon [of e]
      recomputes_label [of e] recomputes_groups [of e] by blast
  show ?thesis
    using a b d k maybeLoadData_recomputed [of s] maybeLoadData_no_bar [of s] by blast
qed

theorem recomputed_indicator_state_witness:
  "statusBarFocus s_load \<noteq> None \<and> state s_load = Load \<and> hasConnectedIntegration s_load
   \<and> recomputes [''launchpad.indicator.polling.enabled'']
   \<and> state (handle (ConfigurationChanged [''launchpad.indicator.polling.enabled'']
                (sampleConfiguration\<lparr>polling_enabled := False\<rparr>)) s_load) = Idle
   \<and> recomputes [''launchpad.indicator.icon'']
   \<and> state (handle (ConfigurationChanged [''launchpad.indicator.icon'']
                (sampleConfiguration\<lparr>indicator_icon := Some ''group''\<rparr>)) s_load) = Loading
   \<and> statusBarFocus s_hidden = None \<and> maybeLoadData s_hidden = s_hidden
   \<and> state (handle (ConfigurationChanged [''launchpad.indicator.icon''] sampleConfiguration)
               s_hidden) = Idle"
  using recomputed_indicator_state
          [of s_load "[''launchpad.indicator.polling.enabled'']"
              "sampleConfiguration\<lparr>polling_enabled := False\<rparr>"]
        recomputed_indicator_state
          [of s_load "[''launchpad.indicator.icon'']"
              "sampleConfiguration\<lparr>indicator_icon := Some ''group''\<rparr>"]
        recomputed_indicator_state [of s_hidden "[''launchpad.indicator.icon'']" sampleConfiguration]
  by (simp add: sample_changes s_load_fields s_load_host_fields s_hidden_fields
        recomputedState_def sampleConfiguration_def)

text \<open>
  On startup with polling enabled, an integration connected and an interval of 0 minutes,
  the state is \<^verbatim>\<open>'idle'\<close>, not \<^verbatim>\<open>'loading'\<close>.
\<close>

theorem zero_interval_is_idle:
  "indicator_enabled (config s_idle_zero) \<and> polling_enabled (config s_idle_zero)
   \<and> hasConnectedIntegration s_idle_zero \<and> statusBarFocus s_idle_zero \<noteq> None
   \<and> state s_idle_zero = Idle \<and> state s_idle_zero \<noteq> Loading"
  by (simp add: s_idle_zero_def eval_defs)

text \<open>
  Claim C2, as the code has it. Every transition of \<^verbatim>\<open>updateStatusBar\<close> (a status bar item
  exists, and the new state differs from the old one or is \<^verbatim>\<open>'load'\<close>) sets the state and
  assigns the text, the tooltip and the color of the new state to the status bar item. A
  transition into \<^verbatim>\<open>'idle'\<close> or \<^verbatim>\<open>'disconnected'\<close> clears the scheduler: no timer is pending
  and no handle is held. A transition into \<^verbatim>\<open>'loading'\<close> starts the scheduler with an initial
  delay of 5000 ms, which arms the timeout when polling is enabled and the interval is
  positive. A transition into \<^verbatim>\<open>'load'\<close> leaves the scheduler as it is.
\<close>

theorem updateStatusBar_transition:
  assumes "statusBarFocus s = Some sb" and "st \<noteq> state s \<or> st = Load" and "timers_ok s"
  shows "state (updateStatusBar st items s) = st
       \<and> statusBarFocus (updateStatusBar st items s) =
           Some (case st of
                   Idle \<Rightarrow>
                     sb\<lparr>sb_text := ''$(rocket)'',
                        sb_tooltip := Some (tooltipIntro (tooltipHeader (ext s))),
                        sb_color := None\<rparr>
                 | Disconnected \<Rightarrow>
                     sb\<lparr>sb_text := ''$(rocket)$(gitlens-unplug) Launchpad'',
                        sb_tooltip := Some (appendMarkdown (tooltipIntro (tooltipHeader (ext s)))
                                              connectMarkdown),
                        sb_color := None\<rparr>
                 | Loading \<Rightarrow>
                     sb\<lparr>sb_text := ''$(loading~spin)'',
                        sb_tooltip := Some (appendMarkdown (tooltipIntro (tooltipHeader (ext s)))
                                              loadingMarkdown),
                        sb_color := None\<rparr>
                 | Load \<Rightarrow>
                     (case itemsPayload (ext s) (config s) (tooltipHeader (ext s)) items of
                        (text, tooltip, color) \<Rightarrow>
                          sb\<lparr>sb_text := text, sb_tooltip := Some tooltip, sb_color := color\<rparr>))
       \<and> (st = Idle \<or> st = Disconnected \<longrightarrow>
            timers (updateStatusBar st items s) = []
            \<and> refreshTimer (updateStatusBar st items s) = None)
       \<and> (st = Loading \<longrightarrow>
            (\<not> polling_enabled (config s) \<or> polling_interval (config s) \<le> 0 \<longrightarrow>
               timers (updateStatusBar st items s) = [])
            \<and> (polling_enabled (config s) \<and> 0 < polling_interval (config s) \<longrightarrow>
                 timers (updateStatusBar st items s) =
                   [(nextTimer s, Timeout 5000 (refreshInterval s))]
                 \<and> refreshTimer (updateStatusBar st items s) = Some (nextTimer s)))
       \<and> (st = Load \<longrightarrow>
            timers (updateStatusBar st items s) = timers s
            \<and> refreshTimer (updateStatusBar st items s) = refreshTimer s
            \<and> nextTimer (updateStatusBar st items s) = nextTimer s)"
proof (cases st)
  case Idle
  have ok: "timers_ok (s\<lparr>state := Idle\<rparr>)" using assms(3) by simp
  show ?thesis using assms(1,2) Idle
    by (simp add: updateStatusBar_def Let_def setStatusBar_def clearRefreshTimer_eq [OF ok])
next
  case Disconnected
  have ok: "timers_ok (s\<lparr>state := Disconnected\<rparr>)" using assms(3) by simp
  show ?thesis using assms(1,2) Disconnected
    by (simp add: updateStatusBar_def Let_def setStatusBar_def clearRefreshTimer_eq [OF ok])
next
  case Loading
  have ok: "timers_ok (s\<lparr>state := Loading\<rparr>)" using assms(3) by simp
  show ?thesis using assms(1,2) Loading
    by (simp add: updateStatusBar_def Let_def setStatusBar_def startRefreshTimer_eq [OF ok]
          refreshInterval_def)
next
  case Load
  show ?thesis using assms(1) Load
    by (simp add: updateStatusBar_def Let_def updateStatusBarWithItems_def setStatusBar_def
          sendTelemetry_frame case_prod_beta)
qed

theorem updateStatusBar_transition_witness:
  "statusBarFocus s_load \<noteq> None \<and> state s_load = Load \<and> timers_ok s_load
   \<and> state (updateStatusBar Idle None s_load) = Idle
   \<and> timers (updateStatusBar Idle None s_load) = []
   \<and> state (updateStatusBar Loading None s_load) = Loading
   \<and> timers (updateStatusBar Loading None s_load) = [(2, Timeout 5000 1800000)]
   \<and> state (updateStatusBar Load None s_load) = Load
   \<and> timers (updateStatusBar Load None s_load) = [(1, Interval 1800000)]"
proof -
  obtain sb where sb: "statusBarFocus s_load = Some sb"
    using s_load_host_fields(1) by auto
  have ok: "timers_ok s_load" by (simp add: timers_ok_def s_load_fields)
  have a: "Idle \<noteq> state s_load \<or> Idle = Load" "Loading \<noteq> state s_load \<or> Loading = Load"
          "Load \<noteq> state s_load \<or> Load = Load"
    by (simp_all add: s_load_fields)
  show ?thesis
    using updateStatusBar_transition [OF sb a(1) ok, of None]
          updateStatusBar_transition [OF sb a(2) ok, of None]
          updateStatusBar_transition [OF sb a(3) ok, of None] ok sb
    by (simp add: s_load_fields sampleConfiguration_def refreshInterval_def)
qed

text \<open>
  A disconnected indicator that receives a completed refresh goes to \<^verbatim>\<open>'load'\<close> and no
  timer is armed, although polling is enabled with a positive interval.
\<close>

lemma s_disconnected_fields:
  "state s_disconnected = Disconnected" "refreshTimer s_disconnected = None"
  "timers s_disconnected = []" "statusBarFocus s_disconnected \<noteq> None"
  "polling_enabled (config s_disconnected)" "0 < polling_interval (config s_disconnected)"
  by (simp_all add: s_disconnected_def eval_defs)

theorem load_transition_arms_nothing:
  "state s_disconnected = Disconnected \<and> polling_enabled (config s_disconnected)
   \<and> 0 < polling_interval (config s_disconnected)
   \<and> state (updateStatusBar Load (Some []) s_disconnected) = Load
   \<and> timers (updateStatusBar Load (Some []) s_disconnected) = []
   \<and> refreshTimer (updateStatusBar Load (Some []) s_disconnected) = None"
  using s_disconnected_fields
  by (auto simp: updateStatusBar_def Let_def updateStatusBarWithItems_frame)

text \<open>
  Claim C5 fails on the code. The indicator is constructed while polling is enabled with an
  interval of 0 minutes, so it is idle; then the interval is set to 5 minutes. The handler
  of the configuration change starts the scheduler without recomputing the state: the
  indicator is still \<^verbatim>\<open>'idle'\<close>, it holds a timer handle, and the repeating timer is pending.
\<close>

theorem idle_with_pending_timer:
  "reachable s_armed_idle \<and> state s_armed_idle = Idle \<and> refreshTimer s_armed_idle = Some 0
   \<and> timers s_armed_idle = [(0, Interval 300000)]"
proof -
  have "reachable s_idle_zero"
    unfolding s_idle_zero_def by (rule reachable_construct) (simp add: sampleHost_def)
  then have "reachable s_armed_idle"
    unfolding s_armed_idle_def by (rule reachable_step)
  then show ?thesis by (simp add: s_armed_idle_fields)
qed

text \<open>
  The same happens to an indicator without a status bar item, which never leaves
  \<^verbatim>\<open>'idle'\<close>.
\<close>

lemma hidden_indicator_arms_timer:
  "reachable s_hidden_armed \<and> statusBarFocus s_hidden_armed = None \<and> state s_hidden_armed = Idle
   \<and> refreshTimer s_hidden_armed = Some 0 \<and> timers s_hidden_armed = [(0, Interval 600000)]"
proof -
  have "reachable s_hidden"
    unfolding s_hidden_def by (rule reachable_construct) (simp add: sampleHost_def)
  then have "reachable s_hidden_armed"
    unfolding s_hidden_armed_def by (rule reachable_step)
  then show ?thesis by (simp add: s_hidden_armed_def s_hidden_def eval_defs)
qed

text \<open>
  What does hold in every reachable state: a disconnected indicator holds no timer handle
  and no timer is pending.
\<close>

lemma disconnected_holds_no_timer:
  "reachable s \<Longrightarrow> state s = Disconnected \<Longrightarrow> refreshTimer s = None \<and> timers s = []"
  using reachable_inv [of s] by (auto simp: indicator_inv_def timers_ok_cases)

subsection \<open>Rendering the items\<close>

text \<open>\<open>show_nat\<close> writes the decimal notation of its argument.\<close>

lemma digit_value: "n < 10 \<Longrightarrow> (of_char (''0123456789'' ! n) :: nat) = 48 + n"
proof -
  have all: "list_all (\<lambda>k. (of_char (''0123456789'' ! k) :: nat) = 48 + k) [0..<10]"
    by code_simp
  assume "n < 10"
  then have "n \<in> set [0..<10]" by simp
  with all show ?thesis unfolding list_all_iff by blast
qed

lemma read_nat_snoc: "read_nat (str @ [c]) = 10 * read_nat str + (of_char c - 48)"
  by (simp add: read_nat_def)

lemma read_show_nat: "read_nat (show_nat n) = n"
proof (induction n rule: show_nat.induct)
  case (1 n)
  show ?case
  proof (cases "n < 10")
    case True
    then show ?thesis by (simp add: read_nat_def digit_value)
  next
    case False
    have "show_nat n = show_nat (n div 10) @ [''0123456789'' ! (n mod 10)]"
      using False by (subst show_nat.simps) simp
    then have "read_nat (show_nat n) = 10 * read_nat (show_nat (n div 10)) + n mod 10"
      by (simp add: read_nat_snoc digit_value del: show_nat.simps)
    then show ?thesis using 1 False by simp
  qed
qed

lemma getItems_None_iff:
  "getItems m g = None \<longleftrightarrow> (\<forall>xs. map_of m g = Some xs \<longrightarrow> xs = [])"
  by (auto simp: getItems_def split: option.splits)

lemma itemsPayload_tooltip:
  "fst (snd (itemsPayload e c tooltip items)) =
     (let grouped = groupAndSortFocusItems e items;
          total = sum_list (map (\<lambda>(g, xs). length xs) grouped);
          groups = (case indicator_groups c of Some gs \<Rightarrow> gs | None \<Rightarrow> [])
      in if total = 0 then tooltip @ ''You are all caught up!''
         else if \<forall>g \<in> set groups. getItems grouped g = None
         then tooltip @ ''No pull requests need your attention'' @ [CHR 0x5C] @ ''\<newline>(''
                @ show_nat total @ '' other pull requests)''
         else r_tooltip (foldl (renderGroup e (case indicator_label c of Some l \<Rightarrow> l | None \<Rightarrow> ''item'') grouped)
                \<lparr>r_tooltip = tooltip, r_color = None, r_topItem = None, r_topIcon = None\<rparr> groups))"
proof -
  have ex: "list_ex (\<lambda>g. getItems m g \<noteq> None) gs \<longleftrightarrow> \<not> (\<forall>g \<in> set gs. getItems m g = None)"
    for m gs by (simp add: list_ex_iff)
  show ?thesis
    unfolding itemsPayload_def Let_def ex appendMarkdown_def
    by (simp add: case_prod_beta del: show_nat.simps)
qed

lemma updateStatusBarWithItems_tooltip:
  "statusBarFocus s = Some sb \<Longrightarrow>
   map_option sb_tooltip (statusBarFocus (updateStatusBarWithItems tooltip items s)) =
     Some (Some (fst (snd (itemsPayload (ext s) (config s) tooltip items))))"
  by (simp add: updateStatusBarWithItems_def Let_def setStatusBar_def sendTelemetry_frame
        case_prod_beta)

text \<open>
  Claim C8. For every rendering of the items on an indicator with a status bar item, given
  the tooltip built so far: if the total of the grouped items is zero, the tooltip is
  extended by \<^verbatim>\<open>You are all caught up!\<close>; if the total \<open>n\<close> is positive and no configured
  group has items, it is extended by the message that no pull requests need attention,
  with \<open>n\<close> in decimal notation as the number of other pull requests.
\<close>

theorem load_tooltip_messages:
  assumes "statusBarFocus s = Some sb"
  shows "let grouped = groupAndSortFocusItems (ext s) items;
             n = sum_list (map (\<lambda>(g, xs). length xs) grouped);
             groups = (case indicator_groups (config s) of Some gs \<Rightarrow> gs | None \<Rightarrow> [])
         in (n = 0 \<longrightarrow>
               map_option sb_tooltip (statusBarFocus (updateStatusBarWithItems tooltip items s)) =
                 Some (Some (tooltip @ ''You are all caught up!'')))
          \<and> (0 < n \<and> (\<forall>g \<in> set groups. \<forall>xs. map_of grouped g = Some xs \<longrightarrow> xs = []) \<longrightarrow>
               map_option sb_tooltip (statusBarFocus (updateStatusBarWithItems tooltip items s)) =
                 Some (Some (tooltip @ ''No pull requests need your attention'' @ [CHR 0x5C]
                             @ ''\<newline>('' @ show_nat n @ '' other pull requests)''))
               \<and> read_nat (show_nat n) = n)"
  unfolding Let_def updateStatusBarWithItems_tooltip [OF assms] itemsPayload_tooltip
    getItems_None_iff read_show_nat
  by (simp del: show_nat.simps)

text \<open>\<^verbatim>\<open>updateStatusBar\<close> renders the state \<^verbatim>\<open>'load'\<close> with the header as the tooltip so far.\<close>

lemma load_render_tooltip:
  "statusBarFocus s = Some sb \<Longrightarrow>
   map_option sb_tooltip (statusBarFocus (updateStatusBar Load items s)) =
     map_option sb_tooltip
       (statusBarFocus (updateStatusBarWithItems (tooltipHeader (ext s)) items (s\<lparr>state := Load\<rparr>)))"
  by (simp add: updateStatusBar_def Let_def)

lemma sample_groups:
  "groupAndSortFocusItems (ext s_loading) (Some []) = []"
  "groupAndSortFocusItems (ext s_loading) (Some [pr ''waiting-for-review'' ''12'', pr ''other'' ''7'']) =
     [(''other'', [pr ''waiting-for-review'' ''12'', pr ''other'' ''7''])]"
  "indicator_groups (config s_loading) = Some [''mergeable'', ''blocked'']"
  by (simp_all add: s_loading_def eval_defs sampleExternals_def groupByMap_sample_def
        group_of_sample_def pr_def blockedKey_def)

theorem load_tooltip_messages_witness:
  "statusBarFocus s_loading \<noteq> None
   \<and> map_option sb_tooltip (statusBarFocus (updateStatusBarWithItems ''T: '' (Some []) s_loading)) =
       Some (Some ''T: You are all caught up!'')
   \<and> map_option sb_tooltip
        (statusBarFocus (updateStatusBarWithItems ''T: ''
           (Some [pr ''waiting-for-review'' ''12'', pr ''other'' ''7'']) s_loading)) =
       Some (Some (''T: No pull requests need your attention'' @ [CHR 0x5C]
                   @ ''\<newline>(2 other pull requests)''))"
proof -
  obtain sb where sb: "statusBarFocus s_loading = Some sb"
    using s_loading_fields(8) by auto
  show ?thesis
    using load_tooltip_messages [OF sb, of "Some []" "''T: ''"]
          load_tooltip_messages [OF sb, of "Some [pr ''waiting-for-review'' ''12'', pr ''other'' ''7'']" "''T: ''"]
          sb
    by (simp add: sample_groups Let_def)
qed

lemma sendTelemetry_more_frame:
  "lastDataUpdate (sendTelemetryFirstLoadEvent s) = lastDataUpdate s"
  "forcedRefreshes (sendTelemetryFirstLoadEvent s) = forcedRefreshes s"
  "hasConnectedIntegration (sendTelemetryFirstLoadEvent s) = hasConnectedIntegration s"
  by (simp_all add: sendTelemetryFirstLoadEvent_def Let_def)

text \<open>
  Claim C9, as the code has it. Rendering the items leaves the state, the timer handle, the
  pending timers, the pause start and the configuration as they are, and does nothing
  without a status bar item. With one, it records the clock as the last data update, sends
  the first-load telemetry (which may set the stored flag and emit one event) and assigns
  the payload. The payload is a function of the helpers, the configuration, the tooltip so
  far and the items: two indicators that agree on these get the same text, tooltip and
  color.
\<close>

theorem render_items_effects:
  "state (updateStatusBarWithItems tooltip items s) = state s
   \<and> refreshTimer (updateStatusBarWithItems tooltip items s) = refreshTimer s
   \<and> timers (updateStatusBarWithItems tooltip items s) = timers s
   \<and> nextTimer (updateStatusBarWithItems tooltip items s) = nextTimer s
   \<and> lastRefreshPaused (updateStatusBarWithItems tooltip items s) = lastRefreshPaused s
   \<and> config (updateStatusBarWithItems tooltip items s) = config s
   \<and> forcedRefreshes (updateStatusBarWithItems tooltip items s) = forcedRefreshes s
   \<and> (statusBarFocus s = None \<longrightarrow> updateStatusBarWithItems tooltip items s = s)
   \<and> (statusBarFocus s = Some sb \<longrightarrow>
        lastDataUpdate (updateStatusBarWithItems tooltip items s) = Some (clock s)
        \<and> storage_hasLoaded (updateStatusBarWithItems tooltip items s) =
            storage_hasLoaded (sendTelemetryFirstLoadEvent s)
        \<and> telemetry_events (updateStatusBarWithItems tooltip items s) =
            telemetry_events (sendTelemetryFirstLoadEvent s)
        \<and> statusBarFocus (updateStatusBarWithItems tooltip items s) =
            Some (case itemsPayload (ext s) (config s) tooltip items of
                    (text, tooltip', color) \<Rightarrow>
                      sb\<lparr>sb_text := text, sb_tooltip := Some tooltip', sb_color := color\<rparr>))
   \<and> (statusBarFocus s = Some sb \<and> statusBarFocus s2 = Some sb2
        \<and> ext s2 = ext s \<and> config s2 = config s \<longrightarrow>
        (\<exists>r r2. statusBarFocus (updateStatusBarWithItems tooltip items s) = Some r
               \<and> statusBarFocus (updateStatusBarWithItems tooltip items s2) = Some r2
               \<and> sb_text r = sb_text r2 \<and> sb_tooltip r = sb_tooltip r2
               \<and> sb_color r = sb_color r2))"
  by (cases "statusBarFocus s")
     (auto simp: updateStatusBarWithItems_def Let_def setStatusBar_def sendTelemetry_frame
        sendTelemetry_more_frame case_prod_beta)

theorem render_items_effects_witness:
  "statusBarFocus s_loading \<noteq> None \<and> statusBarFocus s_load \<noteq> None
   \<and> ext s_load = ext s_loading \<and> config s_load = config s_loading
   \<and> lastDataUpdate (updateStatusBarWithItems [] None s_load) = Some 6000
   \<and> map_option sb_text (statusBarFocus (updateStatusBarWithItems [] None s_loading)) =
       map_option sb_text (statusBarFocus (updateStatusBarWithItems [] None s_load))
   \<and> map_option sb_tooltip (statusBarFocus (updateStatusBarWithItems [] None s_loading)) =
       map_option sb_tooltip (statusBarFocus (updateStatusBarWithItems [] None s_load))
   \<and> map_option sb_color (statusBarFocus (updateStatusBarWithItems [] None s_loading)) =
       map_option sb_color (statusBarFocus (updateStatusBarWithItems [] None s_load))"
proof -
  obtain sb where sb: "statusBarFocus s_loading = Some sb"
    using s_loading_fields(8) by auto
  obtain sb2 where sb2: "statusBarFocus s_load = Some sb2"
    using s_load_host_fields(1) by auto
  have e: "ext s_load = ext s_loading" "config s_load = config s_loading" "clock s_load = 6000"
    by (simp_all add: s_load_def s_loading_def eval_defs updateStatusBarWithItems_def
          sendTelemetryFirstLoadEvent_def case_prod_beta)
  have "\<exists>r r2. statusBarFocus (updateStatusBarWithItems [] None s_loading) = Some r
               \<and> statusBarFocus (updateStatusBarWithItems [] None s_load) = Some r2
               \<and> sb_text r = sb_text r2 \<and> sb_tooltip r = sb_tooltip r2
               \<and> sb_color r = sb_color r2"
    using render_items_effects [of "[]" None s_loading sb s_load sb2] sb sb2 e by blast
  moreover have "lastDataUpdate (updateStatusBarWithItems [] None s_load) = Some 6000"
    using render_items_effects [of "[]" None s_load sb2 s_load sb2] sb2 e by simp
  ultimately show ?thesis using sb sb2 e by auto
qed

text \<open>
  Rendering on the freshly constructed sample indicator records the data update, sets the
  stored flag and emits the telemetry event.
\<close>

theorem render_items_has_side_effects:
  "lastDataUpdate s_loading = None
   \<and> lastDataUpdate (updateStatusBarWithItems [] None s_loading) = Some 0
   \<and> storage_hasLoaded s_loading = None
   \<and> storage_hasLoaded (updateStatusBarWithItems [] None s_loading) = Some True
   \<and> telemetry_events s_loading = []
   \<and> telemetry_events (updateStatusBarWithItems [] None s_loading) =
       [''launchpad/indicator/firstLoad'']"
  by (simp add: s_loading_def eval_defs updateStatusBarWithItems_def
        sendTelemetryFirstLoadEvent_def case_prod_beta)

subsection \<open>The connection cache of the home webview\<close>

lemma isHosted_keeps_any:
  "anyIntegrationConnected (snd (isHostedIntegrationConnected force p)) = anyIntegrationConnected p"
  by (simp add: isHostedIntegrationConnected_def Let_def split: option.splits)

lemma isAny_cached:
  "anyIntegrationConnected p = Some v \<Longrightarrow> isAnyIntegrationConnected False p = (v, p)"
  by (simp add: isAnyIntegrationConnected_def)

lemma getState_any:
  "anyIntegrationConnected p = Some v \<Longrightarrow>
   hasAnyIntegrationConnected (fst (getState p)) = v
   \<and> anyIntegrationConnected (snd (getState p)) = Some v"
proof -
  assume a: "anyIntegrationConnected p = Some v"
  obtain c p1 where p1: "getOnboardingState p = (c, p1)" by (cases "getOnboardingState p")
  obtain d p2 where p2: "isHostedIntegrationConnected False p1 = (d, p2)"
    by (cases "isHostedIntegrationConnected False p1")
  have "anyIntegrationConnected p1 = Some v"
    using isHosted_keeps_any [of False p] p1 a by (simp add: getOnboardingState_def)
  then have "anyIntegrationConnected p2 = Some v"
    using isHosted_keeps_any [of False p1] p2 by simp
  then show ?thesis
    by (simp add: getState_def p1 p2 isAny_cached)
qed

lemma notify_keeps_any:
  "anyIntegrationConnected (notifyDidChangeOnboardingIntegration p) = anyIntegrationConnected p"
  "anyIntegrationConnected (notifyDidChangeOnboardingState p) = anyIntegrationConnected p"
  by (simp_all add: notifyDidChangeOnboardingIntegration_def notifyDidChangeOnboardingState_def
        getOnboardingState_def isHosted_keeps_any case_prod_beta)

lemma home_handle_any:
  "anyIntegrationConnected p = Some v \<Longrightarrow> anyIntegrationConnected (home_handle e p) = Some v"
  by (cases e) (simp_all add: getState_any notify_keeps_any)

lemma home_run_any:
  "anyIntegrationConnected p = Some v \<Longrightarrow> anyIntegrationConnected (home_run es p) = Some v"
proof (induction es arbitrary: p)
  case Nil
  then show ?case by (simp add: home_run_def)
next
  case (Cons e es)
  have "home_run (e # es) p = home_run es (home_handle e p)" by (simp add: home_run_def)
  with Cons home_handle_any [of p v e] show ?case by simp
qed

text \<open>
  Claim C10. The first call of \<^verbatim>\<open>isAnyIntegrationConnected\<close> computes the flag from the
  connected integrations and caches it. No handler passes \<^verbatim>\<open>force = true\<close>, so after any
  sequence of events, whatever integrations connect or disconnect, the next call and the
  next \<^verbatim>\<open>getState\<close> return the value of the first call.
\<close>

theorem anyIntegrationConnected_cached_forever:
  assumes "isAnyIntegrationConnected False p = (v, p')"
  shows "anyIntegrationConnected p' = Some v
       \<and> (anyIntegrationConnected p = None \<longrightarrow>
            v = (length (connectedHosting p @ connectedIssues p) > 0))
       \<and> isAnyIntegrationConnected False (home_run es p') = (v, home_run es p')
       \<and> hasAnyIntegrationConnected (fst (getState (home_run es p'))) = v"
proof -
  have c: "anyIntegrationConnected p' = Some v"
    using assms by (auto simp: isAnyIntegrationConnected_def Let_def split: option.splits)
  have f: "anyIntegrationConnected p = None \<longrightarrow>
            v = (length (connectedHosting p @ connectedIssues p) > 0)"
    using assms by (auto simp: isAnyIntegrationConnected_def Let_def)
  have r: "anyIntegrationConnected (home_run es p') = Some v"
    using c by (rule home_run_any)
  show ?thesis using c f isAny_cached [OF r] getState_any [OF r] by simp
qed

theorem anyIntegrationConnected_cached_forever_witness:
  "isAnyIntegrationConnected False sampleHome =
     (True, sampleHome\<lparr>anyIntegrationConnected := Some True\<rparr>)
   \<and> connectedHosting (home_run [IntegrationsNow [] [], ChangeConnectionState]
        (sampleHome\<lparr>anyIntegrationConnected := Some True\<rparr>)) = []
   \<and> connectedIssues (home_run [IntegrationsNow [] [], ChangeConnectionState]
        (sampleHome\<lparr>anyIntegrationConnected := Some True\<rparr>)) = []
   \<and> hasAnyIntegrationConnected
        (fst (getState (home_run [IntegrationsNow [] [], ChangeConnectionState]
                (sampleHome\<lparr>anyIntegrationConnected := Some True\<rparr>)))) = True"
proof -
  have a: "isAnyIntegrationConnected False sampleHome =
             (True, sampleHome\<lparr>anyIntegrationConnected := Some True\<rparr>)"
    by (simp add: isAnyIntegrationConnected_def sampleHome_def)
  have b: "connectedHosting (home_run [IntegrationsNow [] [], ChangeConnectionState]
             (sampleHome\<lparr>anyIntegrationConnected := Some True\<rparr>)) = []
           \<and> connectedIssues (home_run [IntegrationsNow [] [], ChangeConnectionState]
             (sampleHome\<lparr>anyIntegrationConnected := Some True\<rparr>)) = []"
    by (simp add: home_run_def notifyDidChangeOnboardingIntegration_def getOnboardingState_def
          isHostedIntegrationConnected_def sampleHome_def Let_def)
  show ?thesis
    using anyIntegrationConnected_cached_forever
            [OF a, of "[IntegrationsNow [] [], ChangeConnectionState]"] a b
    by simp
qed

end
